theory Spec2Isabelle
  imports Main "HOL-Library.Word"
begin

unbundle bit_operations_syntax

section \<open>SwitchPrimaryMonitor: the data of \<open>src/main.cpp\<close>\<close>

text \<open>
  \<open>DWORD\<close> and \<open>LONG\<close> are the 32-bit integers of the Windows ABI. Flag words and
  monitor positions are 32-bit words, so \<open>+\<close> and unary \<open>-\<close> wrap around.
  Indices into the vector of displays and the device index handed to the enumeration
  are natural numbers, and \<open>currentPrimary\<close> and \<open>targetIndex\<close>, which start at
  \<open>-1\<close>, are integers: the number of displays of a desktop stays far below \<open>2^31\<close>,
  where \<open>static_cast<int>\<close> and \<open>+ 1\<close> are exact.
\<close>

type_synonym DWORD = "32 word"
type_synonym LONG = "32 word"

record POINTL =
  POINTL_x :: LONG
  POINTL_y :: LONG

text \<open>The members of \<open>DEVMODEW\<close> that describe a display; \<open>dmFields\<close> is the mask
  saying which members are to be applied.\<close>

record DEVMODEW =
  dmFields :: DWORD
  dmPosition :: POINTL
  dmDisplayOrientation :: DWORD
  dmDisplayFixedOutput :: DWORD
  dmBitsPerPel :: DWORD
  dmPelsWidth :: DWORD
  dmPelsHeight :: DWORD
  dmDisplayFlags :: DWORD
  dmDisplayFrequency :: DWORD

record DISPLAY_DEVICEW =
  DeviceName :: string
  DeviceString :: string
  StateFlags :: DWORD
  DeviceID :: string
  DeviceKey :: string

text \<open>\<open>struct Display\<close> (lines 14-18).\<close>

record Display =
  dd :: DISPLAY_DEVICEW
  dm :: DEVMODEW
  isPrimary :: bool

text \<open>
  One call of \<open>ChangeDisplaySettingsExW(lpszDeviceName, lpDevMode, hwnd, dwflags, lParam)\<close>.
  The program passes \<open>nullptr\<close> for \<open>hwnd\<close> and \<open>lParam\<close> in every call, so a call is
  its device name, its settings and its flags; \<open>None\<close> is \<open>nullptr\<close>.
\<close>

record cds_call =
  lpszDeviceName :: "string option"
  lpDevMode :: "DEVMODEW option"
  dwflags :: DWORD

text \<open>
  What \<open>windows.h\<close> gives the program and the source does not contain: the flag
  constants, taken as parameters, and the three calls of the display service.
  \<open>EnumDisplayDevicesW w i\<close> is \<open>None\<close> where the call returns \<open>FALSE\<close>;
  \<open>EnumDisplaySettingsExW w name mode\<close> likewise. The result of
  \<open>ChangeDisplaySettingsExW\<close> may depend on every call made before it, so it is a
  function of the earlier calls and the present one.
\<close>

record windows_h =
  DISPLAY_DEVICE_ATTACHED_TO_DESKTOP :: DWORD
  DISPLAY_DEVICE_MIRRORING_DRIVER :: DWORD
  DISPLAY_DEVICE_PRIMARY_DEVICE :: DWORD
  ENUM_CURRENT_SETTINGS :: DWORD
  DM_POSITION :: DWORD
  CDS_SET_PRIMARY :: DWORD
  CDS_UPDATEREGISTRY :: DWORD
  CDS_NORESET :: DWORD
  DISP_CHANGE_SUCCESSFUL :: LONG
  EnumDisplayDevicesW :: "nat \<Rightarrow> DISPLAY_DEVICEW option"
  EnumDisplaySettingsExW :: "string \<Rightarrow> DWORD \<Rightarrow> DEVMODEW option"
  ChangeDisplaySettingsExW :: "cds_call list \<Rightarrow> cds_call \<Rightarrow> LONG"

text \<open>What the program prints, one constructor for each message of the source; the
  device name and the result code are the values the message carries.\<close>

datatype message =
    PrintLastError string
  | No_attached_displays_found
  | Could_not_identify_current_primary_display
  | Only_one_display_attached
  | Set_primary_failed string LONG
  | Reposition_failed string LONG
  | Final_apply_failed LONG
  | Primary_display_switched_to string

text \<open>The effects of a run: the calls of \<open>ChangeDisplaySettingsExW\<close> made so far, in
  order, and the messages printed so far.\<close>

record run =
  calls :: "cds_call list"
  printed :: "message list"

section \<open>\<open>EnumerateDisplays\<close> (lines 33-60)\<close>

text \<open>
  The loop \<open>for (DWORD i = 0;; ++i)\<close> has no bound of its own: it ends when
  \<open>EnumDisplayDevicesW\<close> fails. Not returning is the value \<open>None\<close>.
\<close>

partial_function (option) EnumerateDisplays_loop ::
  "windows_h \<Rightarrow> nat \<Rightarrow> Display list \<Rightarrow> message list \<Rightarrow> (Display list \<times> message list) option"
where
  "EnumerateDisplays_loop w i out log =
     (case EnumDisplayDevicesW w i of
        None \<Rightarrow> Some (out, log)
      | Some dev \<Rightarrow>
          if StateFlags dev AND DISPLAY_DEVICE_ATTACHED_TO_DESKTOP w = 0
          then EnumerateDisplays_loop w (i + 1) out log
          else if StateFlags dev AND DISPLAY_DEVICE_MIRRORING_DRIVER w \<noteq> 0
          then EnumerateDisplays_loop w (i + 1) out log
          else
            (case EnumDisplaySettingsExW w (DeviceName dev) (ENUM_CURRENT_SETTINGS w) of
               None \<Rightarrow>
                 EnumerateDisplays_loop w (i + 1) out (log @ [PrintLastError ''EnumDisplaySettingsEx''])
             | Some mode \<Rightarrow>
                 EnumerateDisplays_loop w (i + 1)
                   (out @ [\<lparr>dd = dev, dm = mode,
                            isPrimary = (StateFlags dev AND DISPLAY_DEVICE_PRIMARY_DEVICE w \<noteq> 0)\<rparr>])
                   log))"

declare EnumerateDisplays_loop.simps [code]

text \<open>The vector is cleared first; the result is \<open>!out.empty()\<close>, the vector and the
  messages printed.\<close>

definition EnumerateDisplays :: "windows_h \<Rightarrow> (bool \<times> Display list \<times> message list) option" where
  "EnumerateDisplays w =
     (case EnumerateDisplays_loop w 0 [] [] of
        None \<Rightarrow> None
      | Some (out, log) \<Rightarrow> Some (out \<noteq> [], out, log))"

section \<open>\<open>SwitchPrimaryToNext\<close> (lines 62-134)\<close>

text \<open>The search for the current primary (lines 70-73): the first flagged index, or
  \<open>-1\<close>.\<close>

function find_current_primary :: "Display list \<Rightarrow> nat \<Rightarrow> int" where
  "find_current_primary displays i =
     (if i < length displays
      then (if isPrimary (displays ! i) then int i
            else find_current_primary displays (i + 1))
      else - 1)"
  by pat_completeness auto
termination
  by (relation "measure (\<lambda>(displays, i). length displays - i)") auto

text \<open>The operator \<open>%\<close> of C++ on \<open>int\<close>: the remainder of the division that
  truncates towards zero.\<close>

definition c_rem :: "int \<Rightarrow> int \<Rightarrow> int" where
  "c_rem a b = sgn a * (\<bar>a\<bar> mod \<bar>b\<bar>)"

text \<open>Line 84.\<close>

definition targetIndex_of :: "int \<Rightarrow> Display list \<Rightarrow> int" where
  "targetIndex_of currentPrimary displays = c_rem (currentPrimary + 1) (int (length displays))"

text \<open>
  The settings written for a display (lines 93-96 and 111-114, the same four
  statements): a copy of the snapshot's \<open>DEVMODEW\<close> with \<open>DM_POSITION\<close> or-ed into
  \<open>dmFields\<close> and the position moved by the offset.
\<close>

definition rebased :: "windows_h \<Rightarrow> Display \<Rightarrow> LONG \<Rightarrow> LONG \<Rightarrow> DEVMODEW" where
  "rebased w d offsetX offsetY =
     (dm d)\<lparr>dmFields := dmFields (dm d) OR DM_POSITION w,
            dmPosition := \<lparr>POINTL_x = POINTL_x (dmPosition (dm d)) + offsetX,
                          POINTL_y = POINTL_y (dmPosition (dm d)) + offsetY\<rparr>\<rparr>"

text \<open>The call of lines 98-99 and the call of lines 116-117.\<close>

definition set_primary_call :: "windows_h \<Rightarrow> Display \<Rightarrow> LONG \<Rightarrow> LONG \<Rightarrow> cds_call" where
  "set_primary_call w target offsetX offsetY =
     \<lparr>lpszDeviceName = Some (DeviceName (dd target)),
      lpDevMode = Some (rebased w target offsetX offsetY),
      dwflags = CDS_SET_PRIMARY w OR CDS_UPDATEREGISTRY w OR CDS_NORESET w\<rparr>"

definition reposition_call :: "windows_h \<Rightarrow> Display \<Rightarrow> LONG \<Rightarrow> LONG \<Rightarrow> cds_call" where
  "reposition_call w d offsetX offsetY =
     \<lparr>lpszDeviceName = Some (DeviceName (dd d)),
      lpDevMode = Some (rebased w d offsetX offsetY),
      dwflags = CDS_UPDATEREGISTRY w OR CDS_NORESET w\<rparr>"

text \<open>The call of line 126: no device, no settings, no flags.\<close>

definition apply_call :: cds_call where
  "apply_call = \<lparr>lpszDeviceName = None, lpDevMode = None, dwflags = 0\<rparr>"

text \<open>
  The loop of lines 108-123 from index \<open>i\<close> on. \<open>Some 4\<close> is the \<open>return 4\<close> inside
  the loop, \<open>None\<close> is leaving the loop at its end.
\<close>

function reposition_loop ::
  "windows_h \<Rightarrow> Display list \<Rightarrow> int \<Rightarrow> LONG \<Rightarrow> LONG \<Rightarrow> nat \<Rightarrow> run \<Rightarrow> int option \<times> run"
where
  "reposition_loop w displays targetIndex offsetX offsetY i s =
     (if i < length displays
      then
        (if int i = targetIndex
         then reposition_loop w displays targetIndex offsetX offsetY (i + 1) s
         else if ChangeDisplaySettingsExW w (calls s)
                   (reposition_call w (displays ! i) offsetX offsetY) \<noteq> DISP_CHANGE_SUCCESSFUL w
         then (Some 4,
               \<lparr>calls = calls s @ [reposition_call w (displays ! i) offsetX offsetY],
                printed = printed s @
                  [Reposition_failed (DeviceName (dd (displays ! i)))
                     (ChangeDisplaySettingsExW w (calls s)
                        (reposition_call w (displays ! i) offsetX offsetY))]\<rparr>)
         else reposition_loop w displays targetIndex offsetX offsetY (i + 1)
                \<lparr>calls = calls s @ [reposition_call w (displays ! i) offsetX offsetY],
                 printed = printed s\<rparr>)
      else (None, s))"
  by pat_completeness auto
termination
  by (relation "measure (\<lambda>(w, displays, targetIndex, offsetX, offsetY, i, s). length displays - i)")
     auto

text \<open>
  Lines 69-133: the function once the displays are enumerated. \<open>s\<close> holds what the
  enumeration printed. The result is the value returned and the effects.
\<close>

definition SwitchPrimaryToNext_body :: "windows_h \<Rightarrow> Display list \<Rightarrow> run \<Rightarrow> int \<times> run" where
  "SwitchPrimaryToNext_body w displays s =
     (let currentPrimary = find_current_primary displays 0 in
      if currentPrimary < 0
      then (2, s\<lparr>printed := printed s @ [Could_not_identify_current_primary_display]\<rparr>)
      else if length displays = 1
      then (0, s\<lparr>printed := printed s @ [Only_one_display_attached]\<rparr>)
      else
        let targetIndex = targetIndex_of currentPrimary displays;
            target = displays ! nat targetIndex;
            offsetX = - POINTL_x (dmPosition (dm target));
            offsetY = - POINTL_y (dmPosition (dm target));
            res = ChangeDisplaySettingsExW w (calls s) (set_primary_call w target offsetX offsetY);
            s1 = s\<lparr>calls := calls s @ [set_primary_call w target offsetX offsetY]\<rparr>
        in
          if res \<noteq> DISP_CHANGE_SUCCESSFUL w
          then (3, s1\<lparr>printed := printed s1 @ [Set_primary_failed (DeviceName (dd target)) res]\<rparr>)
          else
            (case reposition_loop w displays targetIndex offsetX offsetY 0 s1 of
               (Some code, s2) \<Rightarrow> (code, s2)
             | (None, s2) \<Rightarrow>
                 let applyRes = ChangeDisplaySettingsExW w (calls s2) apply_call;
                     s3 = s2\<lparr>calls := calls s2 @ [apply_call]\<rparr>
                 in
                   if applyRes \<noteq> DISP_CHANGE_SUCCESSFUL w
                   then (5, s3\<lparr>printed := printed s3 @ [Final_apply_failed applyRes]\<rparr>)
                   else (0, s3\<lparr>printed := printed s3 @
                               [Primary_display_switched_to (DeviceName (dd target))]\<rparr>)))"

text \<open>Lines 62-134, and \<open>wWinMain\<close> (lines 146-149), whose exit status is the value
  returned; \<open>AttachParentConsoleIfPresent\<close> only redirects the two output streams.
  \<open>None\<close>: the enumeration does not return.\<close>

definition SwitchPrimaryToNext :: "windows_h \<Rightarrow> (int \<times> run) option" where
  "SwitchPrimaryToNext w =
     (case EnumerateDisplays w of
        None \<Rightarrow> None
      | Some (found, displays, log) \<Rightarrow>
          if \<not> found
          then Some (1, \<lparr>calls = [], printed = log @ [No_attached_displays_found]\<rparr>)
          else Some (SwitchPrimaryToNext_body w displays \<lparr>calls = [], printed = log\<rparr>))"

definition wWinMain :: "windows_h \<Rightarrow> int option" where
  "wWinMain w = map_option fst (SwitchPrimaryToNext w)"

declare find_current_primary.simps [simp del]
declare reposition_loop.simps [simp del]

section \<open>The vocabulary of the specification\<close>

text \<open>
  The definitions of this section follow the words of the specification, not the code;
  the theorems relate the two.

  A candidate device is attached to the desktop and is not a mirroring driver; its
  current settings are what the settings read returns for its name.
\<close>

definition candidate :: "windows_h \<Rightarrow> DISPLAY_DEVICEW \<Rightarrow> bool" where
  "candidate w dev \<longleftrightarrow>
     StateFlags dev AND DISPLAY_DEVICE_ATTACHED_TO_DESKTOP w \<noteq> 0 \<and>
     StateFlags dev AND DISPLAY_DEVICE_MIRRORING_DRIVER w = 0"

definition current_settings :: "windows_h \<Rightarrow> DISPLAY_DEVICEW \<Rightarrow> DEVMODEW option" where
  "current_settings w dev = EnumDisplaySettingsExW w (DeviceName dev) (ENUM_CURRENT_SETTINGS w)"

text \<open>The Topology Reader over a table of devices: a monitor for every candidate
  whose settings can be read, and a diagnostic for every candidate whose settings
  cannot.\<close>

fun read_monitors :: "windows_h \<Rightarrow> DISPLAY_DEVICEW list \<Rightarrow> Display list" where
  "read_monitors w [] = []"
| "read_monitors w (dev # devs) =
     (if candidate w dev
      then (case current_settings w dev of
              None \<Rightarrow> read_monitors w devs
            | Some mode \<Rightarrow>
                \<lparr>dd = dev, dm = mode,
                 isPrimary = (StateFlags dev AND DISPLAY_DEVICE_PRIMARY_DEVICE w \<noteq> 0)\<rparr>
                # read_monitors w devs)
      else read_monitors w devs)"

fun read_diagnostics :: "windows_h \<Rightarrow> DISPLAY_DEVICEW list \<Rightarrow> message list" where
  "read_diagnostics w [] = []"
| "read_diagnostics w (dev # devs) =
     (if candidate w dev \<and> current_settings w dev = None
      then PrintLastError ''EnumDisplaySettingsEx'' # read_diagnostics w devs
      else read_diagnostics w devs)"

text \<open>\<open>p\<close> is the lowest index flagged primary.\<close>

definition first_primary :: "Display list \<Rightarrow> nat \<Rightarrow> bool" where
  "first_primary displays p \<longleftrightarrow>
     p < length displays \<and> isPrimary (displays ! p) \<and> (\<forall>j<p. \<not> isPrimary (displays ! j))"

text \<open>The circular successor of \<open>p\<close> in enumeration order, and the monitor there.\<close>

definition successor :: "Display list \<Rightarrow> nat \<Rightarrow> nat" where
  "successor displays p = (p + 1) mod length displays"

definition target_of :: "Display list \<Rightarrow> nat \<Rightarrow> Display" where
  "target_of displays p = displays ! successor displays p"

definition position :: "Display \<Rightarrow> POINTL" where
  "position d = dmPosition (dm d)"

text \<open>The monitors other than the one at index \<open>t\<close>, in enumeration order.\<close>

definition non_targets :: "nat \<Rightarrow> Display list \<Rightarrow> Display list" where
  "non_targets t displays = map ((!) displays) (filter (\<lambda>j. j \<noteq> t) [0..<length displays])"

text \<open>The place of monitor \<open>j\<close> in the sequence of writes when \<open>t\<close> is the target: the
  target comes first, the others follow in enumeration order.\<close>

definition write_index :: "nat \<Rightarrow> nat \<Rightarrow> nat" where
  "write_index t j = (if j < t then Suc j else j)"

text \<open>The write for the target and the write for another monitor, with the offset that
  is the negation of the target's position.\<close>

definition target_write :: "windows_h \<Rightarrow> Display \<Rightarrow> cds_call" where
  "target_write w target =
     set_primary_call w target (- POINTL_x (position target)) (- POINTL_y (position target))"

definition other_write :: "windows_h \<Rightarrow> Display \<Rightarrow> Display \<Rightarrow> cds_call" where
  "other_write w target d =
     reposition_call w d (- POINTL_x (position target)) (- POINTL_y (position target))"

text \<open>The monitors in the order they are written, and their writes.\<close>

definition written :: "Display list \<Rightarrow> nat \<Rightarrow> Display list" where
  "written displays p = target_of displays p # non_targets (successor displays p) displays"

definition writes :: "windows_h \<Rightarrow> Display list \<Rightarrow> nat \<Rightarrow> cds_call list" where
  "writes w displays p =
     target_write w (target_of displays p) #
     map (other_write w (target_of displays p)) (non_targets (successor displays p) displays)"

text \<open>The display service accepts call \<open>c\<close> after the calls \<open>history\<close>.\<close>

definition accepted :: "windows_h \<Rightarrow> cds_call list \<Rightarrow> cds_call \<Rightarrow> bool" where
  "accepted w history c \<longleftrightarrow> ChangeDisplaySettingsExW w history c = DISP_CHANGE_SUCCESSFUL w"

text \<open>The position a call stages.\<close>

definition staged_position :: "cds_call \<Rightarrow> POINTL option" where
  "staged_position c = map_option dmPosition (lpDevMode c)"

text \<open>Staging the writes of a list of monitors one after the other, stopping at the
  first one the service rejects: the loop of lines 108-123 over the monitors it does not
  skip.\<close>

fun reposition_all :: "windows_h \<Rightarrow> LONG \<Rightarrow> LONG \<Rightarrow> Display list \<Rightarrow> run \<Rightarrow> int option \<times> run" where
  "reposition_all w offsetX offsetY [] s = (None, s)"
| "reposition_all w offsetX offsetY (d # ds) s =
     (if ChangeDisplaySettingsExW w (calls s) (reposition_call w d offsetX offsetY)
           \<noteq> DISP_CHANGE_SUCCESSFUL w
      then (Some 4,
            \<lparr>calls = calls s @ [reposition_call w d offsetX offsetY],
             printed = printed s @
               [Reposition_failed (DeviceName (dd d))
                  (ChangeDisplaySettingsExW w (calls s) (reposition_call w d offsetX offsetY))]\<rparr>)
      else reposition_all w offsetX offsetY ds
             \<lparr>calls = calls s @ [reposition_call w d offsetX offsetY], printed = printed s\<rparr>)"

text \<open>The same monitors with the primary flag on index \<open>p\<close> and on no other.\<close>

definition only_primary :: "nat \<Rightarrow> Display list \<Rightarrow> Display list" where
  "only_primary p displays =
     map (\<lambda>j. (displays ! j)\<lparr>isPrimary := (j = p)\<rparr>) [0..<length displays]"

section \<open>Concrete desktops\<close>

text \<open>
  A display service with the flag values of the Windows SDK headers, a table of
  devices, the settings of each device name and the answers of
  \<open>ChangeDisplaySettingsExW\<close>.
\<close>

definition windows_sdk ::
  "DISPLAY_DEVICEW list \<Rightarrow> (string \<Rightarrow> DEVMODEW option) \<Rightarrow>
   (cds_call list \<Rightarrow> cds_call \<Rightarrow> LONG) \<Rightarrow> windows_h"
where
  "windows_sdk devs settings change =
     \<lparr>DISPLAY_DEVICE_ATTACHED_TO_DESKTOP = 0x1,
      DISPLAY_DEVICE_MIRRORING_DRIVER = 0x8,
      DISPLAY_DEVICE_PRIMARY_DEVICE = 0x4,
      ENUM_CURRENT_SETTINGS = - 1,
      DM_POSITION = 0x20,
      CDS_SET_PRIMARY = 0x10,
      CDS_UPDATEREGISTRY = 0x1,
      CDS_NORESET = 0x10000000,
      DISP_CHANGE_SUCCESSFUL = 0,
      EnumDisplayDevicesW = (\<lambda>i. if i < length devs then Some (devs ! i) else None),
      EnumDisplaySettingsExW = (\<lambda>name mode. if mode = - 1 then settings name else None),
      ChangeDisplaySettingsExW = change\<rparr>"

definition device :: "string \<Rightarrow> DWORD \<Rightarrow> DISPLAY_DEVICEW" where
  "device name flags =
     \<lparr>DeviceName = name, DeviceString = ''Generic PnP Monitor'', StateFlags = flags,
      DeviceID = [], DeviceKey = []\<rparr>"

definition settings_at :: "DWORD \<Rightarrow> LONG \<Rightarrow> LONG \<Rightarrow> DEVMODEW" where
  "settings_at flds px py =
     \<lparr>dmFields = flds, dmPosition = \<lparr>POINTL_x = px, POINTL_y = py\<rparr>,
      dmDisplayOrientation = 0, dmDisplayFixedOutput = 0, dmBitsPerPel = 32,
      dmPelsWidth = 1920, dmPelsHeight = 1080, dmDisplayFlags = 0, dmDisplayFrequency = 60\<rparr>"

text \<open>Answers of the service: the same code for every call, or a failure code for the
  calls that name a given device (\<open>None\<close>: the final apply) and success otherwise.\<close>

definition always :: "LONG \<Rightarrow> cds_call list \<Rightarrow> cds_call \<Rightarrow> LONG" where
  "always res history c = res"

definition rejecting :: "string option \<Rightarrow> cds_call list \<Rightarrow> cds_call \<Rightarrow> LONG" where
  "rejecting name history c = (if lpszDeviceName c = name then - 1 else 0)"

text \<open>
  The desktop of the specification's example: A at (0,0), primary; B at (1920,0);
  C at (-1920,0). The table also holds a mirroring driver M, a device U that is not
  attached and a device X whose settings cannot be read.
\<close>

definition three_devices :: "DISPLAY_DEVICEW list" where
  "three_devices =
     [device ''A'' 0x5, device ''M'' 0x9, device ''B'' 0x1, device ''U'' 0x0,
      device ''X'' 0x1, device ''C'' 0x1]"

definition three_settings :: "DWORD \<Rightarrow> string \<Rightarrow> DEVMODEW option" where
  "three_settings flds name =
     (if name = ''A'' then Some (settings_at flds 0 0)
      else if name = ''B'' then Some (settings_at flds 1920 0)
      else if name = ''C'' then Some (settings_at flds (- 1920) 0)
      else None)"

definition monitor :: "string \<Rightarrow> DWORD \<Rightarrow> DWORD \<Rightarrow> LONG \<Rightarrow> LONG \<Rightarrow> bool \<Rightarrow> Display" where
  "monitor name flags flds px py primary =
     \<lparr>dd = device name flags, dm = settings_at flds px py, isPrimary = primary\<rparr>"

definition three_monitors :: "DWORD \<Rightarrow> Display list" where
  "three_monitors flds =
     [monitor ''A'' 0x5 flds 0 0 True, monitor ''B'' 0x1 flds 1920 0 False,
      monitor ''C'' 0x1 flds (- 1920) 0 False]"

text \<open>The specification's second example: two monitors, the second one primary.\<close>

definition two_monitors :: "Display list" where
  "two_monitors =
     [monitor ''A'' 0x1 0x7C00A0 (- 1920) 0 False, monitor ''B'' 0x5 0x7C00A0 0 0 True]"

text \<open>A desktop with one monitor, flagged primary; and a desktop where the settings of
  the primary device X cannot be read, which leaves one monitor, not flagged.\<close>

definition single_devices :: "DISPLAY_DEVICEW list" where
  "single_devices = [device ''A'' 0x5]"

definition orphan_devices :: "DISPLAY_DEVICEW list" where
  "orphan_devices = [device ''X'' 0x5, device ''B'' 0x1]"

text \<open>A desktop where two devices, B and C, carry the primary flag.\<close>

definition double_devices :: "DISPLAY_DEVICEW list" where
  "double_devices = [device ''A'' 0x1, device ''B'' 0x5, device ''C'' 0x5]"

definition double_monitors :: "DWORD \<Rightarrow> Display list" where
  "double_monitors flds =
     [monitor ''A'' 0x1 flds 0 0 False, monitor ''B'' 0x5 flds 1920 0 True,
      monitor ''C'' 0x5 flds (- 1920) 0 True]"

section \<open>The loops of the code\<close>

text \<open>The enumeration loop over a table of devices is the Topology Reader.\<close>

lemma EnumerateDisplays_loop_table:
  "\<forall>j<length devs. EnumDisplayDevicesW w (i + j) = Some (devs ! j) \<Longrightarrow>
   EnumDisplayDevicesW w (i + length devs) = None \<Longrightarrow>
   EnumerateDisplays_loop w i out log =
     Some (out @ read_monitors w devs, log @ read_diagnostics w devs)"
proof (induction devs arbitrary: i out log)
  case Nil
  then show ?case
    by (subst EnumerateDisplays_loop.simps) simp
next
  case (Cons dev devs)
  have hd: "EnumDisplayDevicesW w i = Some dev"
    using Cons.prems(1) by force
  have tl: "\<forall>j<length devs. EnumDisplayDevicesW w (Suc i + j) = Some (devs ! j)"
    using Cons.prems(1) by force
  have en: "EnumDisplayDevicesW w (Suc i + length devs) = None"
    using Cons.prems(2) by simp
  note IH = Cons.IH [OF tl en]
  show ?case
    by (subst EnumerateDisplays_loop.simps)
       (simp add: hd IH candidate_def current_settings_def split: option.split)
qed

lemma EnumerateDisplays_table:
  assumes "\<forall>j<length devs. EnumDisplayDevicesW w j = Some (devs ! j)"
    and "EnumDisplayDevicesW w (length devs) = None"
  shows "EnumerateDisplays w =
           Some (read_monitors w devs \<noteq> [], read_monitors w devs, read_diagnostics w devs)"
  using EnumerateDisplays_loop_table [of devs w 0 "[]" "[]"] assms
  by (simp add: EnumerateDisplays_def)

lemma dd_read_monitors:
  "map dd (read_monitors w devs) =
     filter (\<lambda>dev. candidate w dev \<and> current_settings w dev \<noteq> None) devs"
  by (induction devs) (auto split: option.splits)

lemma read_monitors_members:
  "d \<in> set (read_monitors w devs) \<Longrightarrow>
     current_settings w (dd d) = Some (dm d) \<and>
     isPrimary d = (StateFlags (dd d) AND DISPLAY_DEVICE_PRIMARY_DEVICE w \<noteq> 0)"
  by (induction devs) (auto split: option.splits if_splits)

lemma read_diagnostics_eq:
  "read_diagnostics w devs =
     map (\<lambda>dev. PrintLastError ''EnumDisplaySettingsEx'')
       (filter (\<lambda>dev. candidate w dev \<and> current_settings w dev = None) devs)"
  by (induction devs) auto

text \<open>The search returns the lowest flagged index, or \<open>-1\<close> when no monitor is
  flagged.\<close>

lemma find_current_primary_first:
  "i \<le> p \<Longrightarrow> p < length displays \<Longrightarrow> isPrimary (displays ! p) \<Longrightarrow>
   \<forall>j. i \<le> j \<and> j < p \<longrightarrow> \<not> isPrimary (displays ! j) \<Longrightarrow>
   find_current_primary displays i = int p"
proof (induction displays i rule: find_current_primary.induct)
  case (1 displays i)
  show ?case
  proof (cases "i = p")
    case True
    with "1.prems" show ?thesis
      by (subst find_current_primary.simps) simp
  next
    case False
    with "1.prems" have lt: "i < p" and np: "\<not> isPrimary (displays ! i)"
      by auto
    from lt "1.prems" have il: "i < length displays" by simp
    have "find_current_primary displays (i + 1) = int p"
      using "1.IH" [OF il np] lt "1.prems" by auto
    with il np show ?thesis
      by (subst find_current_primary.simps) simp
  qed
qed

lemma find_current_primary_none:
  "\<forall>j. i \<le> j \<and> j < length displays \<longrightarrow> \<not> isPrimary (displays ! j) \<Longrightarrow>
   find_current_primary displays i = - 1"
proof (induction displays i rule: find_current_primary.induct)
  case (1 displays i)
  show ?case
  proof (cases "i < length displays")
    case True
    with "1.prems" have np: "\<not> isPrimary (displays ! i)" by auto
    have "find_current_primary displays (i + 1) = - 1"
      using "1.IH" [OF True np] "1.prems" by auto
    with True np show ?thesis
      by (subst find_current_primary.simps) simp
  next
    case False
    then show ?thesis
      by (subst find_current_primary.simps) simp
  qed
qed

lemma first_flagged:
  assumes "\<exists>j<length displays. isPrimary (displays ! j)"
  obtains p where "p < length displays" "isPrimary (displays ! p)"
    "\<forall>j<p. \<not> isPrimary (displays ! j)"
proof -
  define P where "P j \<longleftrightarrow> j < length displays \<and> isPrimary (displays ! j)" for j
  from assms have ex: "\<exists>j. P j" by (auto simp: P_def)
  define p where "p = (LEAST j. P j)"
  from ex have Pp: "P p" unfolding p_def by (auto intro: LeastI)
  have least: "\<forall>j<p. \<not> P j" unfolding p_def using not_less_Least by blast
  have "\<forall>j<p. \<not> isPrimary (displays ! j)"
  proof (intro allI impI)
    fix j assume "j < p"
    with least Pp show "\<not> isPrimary (displays ! j)" by (auto simp: P_def)
  qed
  with Pp that show ?thesis by (auto simp: P_def)
qed

text \<open>On the operands of line 84 the truncating remainder is \<open>mod\<close>.\<close>

lemma c_rem_nonneg: "0 \<le> a \<Longrightarrow> c_rem a b = a mod \<bar>b\<bar>"
  by (cases "a = 0") (simp_all add: c_rem_def)

lemma targetIndex_of_nat:
  "displays \<noteq> [] \<Longrightarrow>
   targetIndex_of (int p) displays = int ((p + 1) mod length displays)"
  by (simp add: targetIndex_of_def c_rem_nonneg zmod_int add.commute)

text \<open>The loop of lines 108-123 stages the writes of the monitors it does not skip, in
  order, up to the first one the service rejects.\<close>

lemma reposition_loop_all:
  "reposition_loop w displays targetIndex offsetX offsetY i s =
     reposition_all w offsetX offsetY
       (map ((!) displays) (filter (\<lambda>j. int j \<noteq> targetIndex) [i..<length displays])) s"
proof (induction w displays targetIndex offsetX offsetY i s rule: reposition_loop.induct)
  case (1 w displays targetIndex offsetX offsetY i s)
  show ?case
  proof (cases "i < length displays")
    case False
    then show ?thesis
      by (subst reposition_loop.simps) simp
  next
    case True
    then have upt: "[i..<length displays] = i # [i + 1..<length displays]"
      by (simp add: upt_conv_Cons)
    show ?thesis
    proof (cases "int i = targetIndex")
      case eq: True
      with True "1.IH"(1) show ?thesis
        by (subst reposition_loop.simps) (simp add: upt)
    next
      case ne: False
      show ?thesis
      proof (cases "ChangeDisplaySettingsExW w (calls s)
                      (reposition_call w (displays ! i) offsetX offsetY) \<noteq> DISP_CHANGE_SUCCESSFUL w")
        case fail: True
        with True ne show ?thesis
          by (subst reposition_loop.simps) (simp add: upt)
      next
        case ok: False
        with True ne "1.IH"(2) show ?thesis
          by (subst reposition_loop.simps) (simp add: upt)
      qed
    qed
  qed
qed

lemma reposition_loop_non_targets:
  "reposition_loop w displays (int t) offsetX offsetY 0 s =
     reposition_all w offsetX offsetY (non_targets t displays) s"
  by (simp add: reposition_loop_all non_targets_def)

lemma reposition_all_ok:
  "\<forall>k<length ds. ChangeDisplaySettingsExW w
       (calls s @ map (\<lambda>d. reposition_call w d ox oy) (take k ds))
       (reposition_call w (ds ! k) ox oy) = DISP_CHANGE_SUCCESSFUL w \<Longrightarrow>
   reposition_all w ox oy ds s =
     (None, \<lparr>calls = calls s @ map (\<lambda>d. reposition_call w d ox oy) ds, printed = printed s\<rparr>)"
proof (induction ds arbitrary: s)
  case Nil
  then show ?case by simp
next
  case (Cons d ds)
  let ?s = "\<lparr>calls = calls s @ [reposition_call w d ox oy], printed = printed s\<rparr>"
  from Cons.prems have h0: "ChangeDisplaySettingsExW w (calls s) (reposition_call w d ox oy)
      = DISP_CHANGE_SUCCESSFUL w"
    by (drule_tac x = 0 in spec) simp
  have "\<forall>k<length ds. ChangeDisplaySettingsExW w
       (calls ?s @ map (\<lambda>d. reposition_call w d ox oy) (take k ds))
       (reposition_call w (ds ! k) ox oy) = DISP_CHANGE_SUCCESSFUL w"
  proof (intro allI impI)
    fix k assume "k < length ds"
    with Cons.prems show "ChangeDisplaySettingsExW w
       (calls ?s @ map (\<lambda>d. reposition_call w d ox oy) (take k ds))
       (reposition_call w (ds ! k) ox oy) = DISP_CHANGE_SUCCESSFUL w"
      by (drule_tac x = "Suc k" in spec) simp
  qed
  from Cons.IH [OF this] h0 show ?case by simp
qed

lemma reposition_all_fail:
  "k < length ds \<Longrightarrow>
   \<forall>i<k. ChangeDisplaySettingsExW w
       (calls s @ map (\<lambda>d. reposition_call w d ox oy) (take i ds))
       (reposition_call w (ds ! i) ox oy) = DISP_CHANGE_SUCCESSFUL w \<Longrightarrow>
   ChangeDisplaySettingsExW w
       (calls s @ map (\<lambda>d. reposition_call w d ox oy) (take k ds))
       (reposition_call w (ds ! k) ox oy) \<noteq> DISP_CHANGE_SUCCESSFUL w \<Longrightarrow>
   reposition_all w ox oy ds s =
     (Some 4,
      \<lparr>calls = calls s @ map (\<lambda>d. reposition_call w d ox oy) (take (Suc k) ds),
       printed = printed s @
         [Reposition_failed (DeviceName (dd (ds ! k)))
            (ChangeDisplaySettingsExW w
               (calls s @ map (\<lambda>d. reposition_call w d ox oy) (take k ds))
               (reposition_call w (ds ! k) ox oy))]\<rparr>)"
proof (induction ds arbitrary: s k)
  case Nil
  then show ?case by simp
next
  case (Cons d ds)
  show ?case
  proof (cases k)
    case 0
    with Cons.prems show ?thesis by simp
  next
    case (Suc k')
    let ?s = "\<lparr>calls = calls s @ [reposition_call w d ox oy], printed = printed s\<rparr>"
    from Cons.prems(2) Suc have h0: "ChangeDisplaySettingsExW w (calls s) (reposition_call w d ox oy)
        = DISP_CHANGE_SUCCESSFUL w"
      by (drule_tac x = 0 in spec) simp
    have k': "k' < length ds" using Cons.prems(1) Suc by simp
    have ok: "\<forall>i<k'. ChangeDisplaySettingsExW w
       (calls ?s @ map (\<lambda>d. reposition_call w d ox oy) (take i ds))
       (reposition_call w (ds ! i) ox oy) = DISP_CHANGE_SUCCESSFUL w"
    proof (intro allI impI)
      fix i assume "i < k'"
      with Cons.prems(2) Suc show "ChangeDisplaySettingsExW w
         (calls ?s @ map (\<lambda>d. reposition_call w d ox oy) (take i ds))
         (reposition_call w (ds ! i) ox oy) = DISP_CHANGE_SUCCESSFUL w"
        by (drule_tac x = "Suc i" in spec) simp
    qed
    have bad: "ChangeDisplaySettingsExW w
       (calls ?s @ map (\<lambda>d. reposition_call w d ox oy) (take k' ds))
       (reposition_call w (ds ! k') ox oy) \<noteq> DISP_CHANGE_SUCCESSFUL w"
      using Cons.prems(3) Suc by simp
    from Cons.IH [OF k' ok bad] h0 Suc show ?thesis by simp
  qed
qed

section \<open>The run, case by case\<close>

lemma find_first_primary: "first_primary displays p \<Longrightarrow> find_current_primary displays 0 = int p"
  by (rule find_current_primary_first) (simp_all add: first_primary_def)

lemma find_no_primary:
  "\<forall>d\<in>set displays. \<not> isPrimary d \<Longrightarrow> find_current_primary displays 0 = - 1"
  by (rule find_current_primary_none) simp

lemma primary_cases:
  obtains (none) "\<forall>d\<in>set displays. \<not> isPrimary d"
  | (some) p where "first_primary displays p"
proof (cases "\<exists>j<length displays. isPrimary (displays ! j)")
  case True
  then obtain p where "p < length displays" "isPrimary (displays ! p)"
    "\<forall>j<p. \<not> isPrimary (displays ! j)"
    by (rule first_flagged)
  then have "first_primary displays p" by (simp add: first_primary_def)
  then show ?thesis by (rule some)
next
  case False
  then have "\<forall>d\<in>set displays. \<not> isPrimary d"
    by (auto simp: in_set_conv_nth)
  then show ?thesis by (rule none)
qed

lemma body_no_primary:
  "\<forall>d\<in>set displays. \<not> isPrimary d \<Longrightarrow>
   SwitchPrimaryToNext_body w displays s =
     (2, s\<lparr>printed := printed s @ [Could_not_identify_current_primary_display]\<rparr>)"
  by (simp add: SwitchPrimaryToNext_body_def find_no_primary)

lemma body_single:
  "first_primary displays p \<Longrightarrow> length displays = 1 \<Longrightarrow>
   SwitchPrimaryToNext_body w displays s =
     (0, s\<lparr>printed := printed s @ [Only_one_display_attached]\<rparr>)"
  by (simp add: SwitchPrimaryToNext_body_def find_first_primary)

lemma body_target_fails:
  assumes "first_primary displays p" and "length displays \<noteq> 1"
    and "ChangeDisplaySettingsExW w (calls s) (target_write w (target_of displays p))
           \<noteq> DISP_CHANGE_SUCCESSFUL w"
  shows "SwitchPrimaryToNext_body w displays s =
     (3, \<lparr>calls = calls s @ [target_write w (target_of displays p)],
          printed = printed s @
            [Set_primary_failed (DeviceName (dd (target_of displays p)))
               (ChangeDisplaySettingsExW w (calls s) (target_write w (target_of displays p)))]\<rparr>)"
proof -
  from assms(1) have ne: "displays \<noteq> []" by (auto simp: first_primary_def)
  show ?thesis
    using assms(2,3)
    by (simp add: SwitchPrimaryToNext_body_def find_first_primary [OF assms(1)]
        targetIndex_of_nat [OF ne] Let_def target_write_def target_of_def successor_def position_def)
qed

lemma body_target_ok:
  assumes "first_primary displays p" and "length displays \<noteq> 1"
    and "ChangeDisplaySettingsExW w (calls s) (target_write w (target_of displays p))
           = DISP_CHANGE_SUCCESSFUL w"
  shows "SwitchPrimaryToNext_body w displays s =
     (case reposition_all w (- POINTL_x (position (target_of displays p)))
             (- POINTL_y (position (target_of displays p)))
             (non_targets (successor displays p) displays)
             \<lparr>calls = calls s @ [target_write w (target_of displays p)], printed = printed s\<rparr> of
        (Some code, s2) \<Rightarrow> (code, s2)
      | (None, s2) \<Rightarrow>
          if ChangeDisplaySettingsExW w (calls s2) apply_call \<noteq> DISP_CHANGE_SUCCESSFUL w
          then (5, \<lparr>calls = calls s2 @ [apply_call],
                    printed = printed s2 @
                      [Final_apply_failed (ChangeDisplaySettingsExW w (calls s2) apply_call)]\<rparr>)
          else (0, \<lparr>calls = calls s2 @ [apply_call],
                    printed = printed s2 @
                      [Primary_display_switched_to (DeviceName (dd (target_of displays p)))]\<rparr>))"
proof -
  from assms(1) have ne: "displays \<noteq> []" by (auto simp: first_primary_def)
  have s1: "s\<lparr>calls := calls s @ [c]\<rparr> = \<lparr>calls = calls s @ [c], printed = printed s\<rparr>" for c
    by simp
  show ?thesis
    using assms(2,3)
    by (simp add: SwitchPrimaryToNext_body_def find_first_primary [OF assms(1)]
        targetIndex_of_nat [OF ne] Let_def target_write_def target_of_def successor_def position_def
        reposition_loop_non_targets s1 split: prod.split option.split)
qed

lemma SwitchPrimaryToNext_enumerated:
  "EnumerateDisplays w = Some (found, displays, log) \<Longrightarrow>
   SwitchPrimaryToNext w =
     Some (if displays = []
           then (1, \<lparr>calls = [], printed = log @ [No_attached_displays_found]\<rparr>)
           else SwitchPrimaryToNext_body w displays \<lparr>calls = [], printed = log\<rparr>)"
  by (auto simp: SwitchPrimaryToNext_def EnumerateDisplays_def split: option.splits)

lemma other_write_fun:
  "other_write w target =
     (\<lambda>d. reposition_call w d (- POINTL_x (position target)) (- POINTL_y (position target)))"
  by (rule ext) (simp add: other_write_def)

lemma length_writes: "length (writes w displays p) = length (written displays p)"
  by (simp add: writes_def written_def)

lemma writes_dichotomy:
  obtains (all_ok) "\<forall>k<length ws. accepted w (take k ws) (ws ! k)"
  | (fails) k where "k < length ws" "\<forall>i<k. accepted w (take i ws) (ws ! i)"
      "\<not> accepted w (take k ws) (ws ! k)"
proof -
  define bad where "bad k \<longleftrightarrow> k < length ws \<and> \<not> accepted w (take k ws) (ws ! k)" for k
  show ?thesis
  proof (cases "\<exists>k. bad k")
    case False
    then show ?thesis by (intro all_ok) (auto simp: bad_def)
  next
    case True
    define k where "k = (LEAST k. bad k)"
    from True have bk: "bad k" unfolding k_def by (auto intro: LeastI)
    have least: "\<forall>i<k. \<not> bad i" unfolding k_def using not_less_Least by blast
    have "\<forall>i<k. accepted w (take i ws) (ws ! i)"
    proof (intro allI impI)
      fix i assume ik: "i < k"
      with least have "\<not> bad i" by simp
      moreover from ik bk have "i < length ws" by (simp add: bad_def)
      ultimately show "accepted w (take i ws) (ws ! i)"
        by (simp add: bad_def)
    qed
    with bk show ?thesis by (intro fails [of k]) (auto simp: bad_def)
  qed
qed

lemma run_no_displays:
  "EnumerateDisplays w = Some (found, [], log) \<Longrightarrow>
   SwitchPrimaryToNext w = Some (1, \<lparr>calls = [], printed = log @ [No_attached_displays_found]\<rparr>)"
  by (simp add: SwitchPrimaryToNext_enumerated)

lemma run_no_primary:
  "EnumerateDisplays w = Some (found, displays, log) \<Longrightarrow> displays \<noteq> [] \<Longrightarrow>
   \<forall>d\<in>set displays. \<not> isPrimary d \<Longrightarrow>
   SwitchPrimaryToNext w =
     Some (2, \<lparr>calls = [], printed = log @ [Could_not_identify_current_primary_display]\<rparr>)"
  by (simp add: SwitchPrimaryToNext_enumerated body_no_primary)

lemma run_single:
  "EnumerateDisplays w = Some (found, displays, log) \<Longrightarrow> length displays = 1 \<Longrightarrow>
   first_primary displays p \<Longrightarrow>
   SwitchPrimaryToNext w = Some (0, \<lparr>calls = [], printed = log @ [Only_one_display_attached]\<rparr>)"
  by (auto simp: SwitchPrimaryToNext_enumerated body_single)

lemma run_write_fails:
  assumes en: "EnumerateDisplays w = Some (found, displays, log)"
    and fp: "first_primary displays p" and n: "length displays \<noteq> 1"
    and k: "k < length (writes w displays p)"
    and ok: "\<forall>i<k. accepted w (take i (writes w displays p)) (writes w displays p ! i)"
    and bad: "\<not> accepted w (take k (writes w displays p)) (writes w displays p ! k)"
  shows "SwitchPrimaryToNext w =
     Some (if k = 0 then 3 else 4,
           \<lparr>calls = take (Suc k) (writes w displays p),
            printed = log @
              [(if k = 0 then Set_primary_failed else Reposition_failed)
                 (DeviceName (dd (written displays p ! k)))
                 (ChangeDisplaySettingsExW w (take k (writes w displays p))
                    (writes w displays p ! k))]\<rparr>)"
proof -
  from fp have ne: "displays \<noteq> []" by (auto simp: first_primary_def)
  let ?tgt = "target_of displays p"
  let ?nts = "non_targets (successor displays p) displays"
  let ?ox = "- POINTL_x (position ?tgt)" and ?oy = "- POINTL_y (position ?tgt)"
  let ?s0 = "\<lparr>calls = [], printed = log\<rparr>"
  show ?thesis
  proof (cases k)
    case 0
    with bad have "ChangeDisplaySettingsExW w (calls ?s0) (target_write w ?tgt)
        \<noteq> DISP_CHANGE_SUCCESSFUL w"
      by (simp add: writes_def accepted_def)
    from body_target_fails [OF fp n this] 0 ne en show ?thesis
      by (simp add: SwitchPrimaryToNext_enumerated writes_def written_def)
  next
    case (Suc k')
    let ?s1 = "\<lparr>calls = calls ?s0 @ [target_write w ?tgt], printed = printed ?s0\<rparr>"
    from ok Suc have "accepted w (take 0 (writes w displays p)) (writes w displays p ! 0)"
      by blast
    then have t_ok: "ChangeDisplaySettingsExW w (calls ?s0) (target_write w ?tgt)
        = DISP_CHANGE_SUCCESSFUL w"
      by (simp add: writes_def accepted_def)
    have k': "k' < length ?nts" using k Suc by (simp add: writes_def)
    have oks: "\<forall>i<k'. ChangeDisplaySettingsExW w
         (calls ?s1 @ map (\<lambda>d. reposition_call w d ?ox ?oy) (take i ?nts))
         (reposition_call w (?nts ! i) ?ox ?oy) = DISP_CHANGE_SUCCESSFUL w"
    proof (intro allI impI)
      fix i assume ik: "i < k'"
      with ok Suc have "accepted w (take (Suc i) (writes w displays p)) (writes w displays p ! Suc i)"
        by simp
      with ik k' show "ChangeDisplaySettingsExW w
         (calls ?s1 @ map (\<lambda>d. reposition_call w d ?ox ?oy) (take i ?nts))
         (reposition_call w (?nts ! i) ?ox ?oy) = DISP_CHANGE_SUCCESSFUL w"
        by (simp add: writes_def accepted_def other_write_fun take_map)
    qed
    have bads: "ChangeDisplaySettingsExW w
         (calls ?s1 @ map (\<lambda>d. reposition_call w d ?ox ?oy) (take k' ?nts))
         (reposition_call w (?nts ! k') ?ox ?oy) \<noteq> DISP_CHANGE_SUCCESSFUL w"
      using bad Suc k' by (simp add: writes_def accepted_def other_write_fun take_map)
    from reposition_all_fail [OF k' oks bads] body_target_ok [OF fp n t_ok] Suc ne en k'
    show ?thesis
      by (simp add: SwitchPrimaryToNext_enumerated writes_def written_def other_write_fun take_map)
  qed
qed

lemma run_all_staged:
  assumes en: "EnumerateDisplays w = Some (found, displays, log)"
    and fp: "first_primary displays p" and n: "length displays \<noteq> 1"
    and ok: "\<forall>k<length (writes w displays p).
               accepted w (take k (writes w displays p)) (writes w displays p ! k)"
  shows "SwitchPrimaryToNext w =
     Some (if accepted w (writes w displays p) apply_call
           then (0, \<lparr>calls = writes w displays p @ [apply_call],
                     printed = log @
                       [Primary_display_switched_to (DeviceName (dd (target_of displays p)))]\<rparr>)
           else (5, \<lparr>calls = writes w displays p @ [apply_call],
                     printed = log @
                       [Final_apply_failed
                          (ChangeDisplaySettingsExW w (writes w displays p) apply_call)]\<rparr>))"
proof -
  from fp have ne: "displays \<noteq> []" by (auto simp: first_primary_def)
  let ?tgt = "target_of displays p"
  let ?nts = "non_targets (successor displays p) displays"
  let ?ox = "- POINTL_x (position ?tgt)" and ?oy = "- POINTL_y (position ?tgt)"
  let ?s0 = "\<lparr>calls = [], printed = log\<rparr>"
  let ?s1 = "\<lparr>calls = calls ?s0 @ [target_write w ?tgt], printed = printed ?s0\<rparr>"
  have "0 < length (writes w displays p)" by (simp add: writes_def)
  with ok have "accepted w (take 0 (writes w displays p)) (writes w displays p ! 0)"
    by blast
  then have t_ok: "ChangeDisplaySettingsExW w (calls ?s0) (target_write w ?tgt)
      = DISP_CHANGE_SUCCESSFUL w"
    by (simp add: writes_def accepted_def)
  have oks: "\<forall>i<length ?nts. ChangeDisplaySettingsExW w
       (calls ?s1 @ map (\<lambda>d. reposition_call w d ?ox ?oy) (take i ?nts))
       (reposition_call w (?nts ! i) ?ox ?oy) = DISP_CHANGE_SUCCESSFUL w"
  proof (intro allI impI)
    fix i assume il: "i < length ?nts"
    then have "Suc i < length (writes w displays p)" by (simp add: writes_def)
    with ok have "accepted w (take (Suc i) (writes w displays p)) (writes w displays p ! Suc i)"
      by blast
    with il show "ChangeDisplaySettingsExW w
       (calls ?s1 @ map (\<lambda>d. reposition_call w d ?ox ?oy) (take i ?nts))
       (reposition_call w (?nts ! i) ?ox ?oy) = DISP_CHANGE_SUCCESSFUL w"
      by (simp add: writes_def accepted_def other_write_fun take_map)
  qed
  from reposition_all_ok [OF oks] body_target_ok [OF fp n t_ok] ne en
  show ?thesis
    by (simp add: SwitchPrimaryToNext_enumerated writes_def other_write_fun accepted_def)
qed

lemma or_and_self: "(a OR b OR c) AND a = (a :: 'a::len word)"
  by (rule bit_word_eqI) (auto simp add: bit_and_iff bit_or_iff)

lemma run_success:
  assumes en: "EnumerateDisplays w = Some (found, displays, log)"
    and fp: "first_primary displays p" and n: "length displays \<noteq> 1"
    and ok: "SwitchPrimaryToNext w = Some (0, r)"
  shows "(\<forall>k<length (writes w displays p).
            accepted w (take k (writes w displays p)) (writes w displays p ! k)) \<and>
         accepted w (writes w displays p) apply_call \<and>
         r = \<lparr>calls = writes w displays p @ [apply_call],
              printed = log @
                [Primary_display_switched_to (DeviceName (dd (target_of displays p)))]\<rparr>"
proof (cases rule: writes_dichotomy [of "writes w displays p" w])
  case (fails k)
  from run_write_fails [OF en fp n fails] ok show ?thesis
    by (simp split: if_splits)
next
  case all_ok
  from run_all_staged [OF en fp n all_ok] ok all_ok show ?thesis
    by (simp split: if_splits)
qed

lemma writes_nth:
  "k < length (written displays p) \<Longrightarrow>
   writes w displays p ! k =
     (if k = 0 then set_primary_call w (written displays p ! k)
                      (- POINTL_x (position (target_of displays p)))
                      (- POINTL_y (position (target_of displays p)))
      else reposition_call w (written displays p ! k)
             (- POINTL_x (position (target_of displays p)))
             (- POINTL_y (position (target_of displays p))))"
proof (cases k)
  case 0
  then show ?thesis
    by (simp add: writes_def written_def target_write_def)
next
  case (Suc k')
  assume "k < length (written displays p)"
  with Suc show ?thesis
    by (simp add: writes_def written_def other_write_def)
qed

lemma apply_call_not_write: "apply_call \<notin> set (writes w displays p)"
  by (auto simp: writes_def apply_call_def target_write_def other_write_def
      set_primary_call_def reposition_call_def)

lemma first_primary_nonempty: "first_primary displays p \<Longrightarrow> displays \<noteq> []"
  by (auto simp: first_primary_def)

lemma filter_upt_neq:
  assumes "t < n"
  shows "filter (\<lambda>j. j \<noteq> t) [0..<n] = [0..<t] @ [Suc t..<n]"
proof -
  from assms have "[0..<n] = [0..<t] @ [t..<n]"
    using upt_add_eq_append [of 0 t "n - t"] by simp
  also from assms have "[t..<n] = t # [Suc t..<n]"
    by (simp add: upt_conv_Cons)
  finally have split: "[0..<n] = [0..<t] @ t # [Suc t..<n]" .
  have l: "filter (\<lambda>j. j \<noteq> t) [0..<t] = [0..<t]"
    by (rule filter_True) simp
  have r: "filter (\<lambda>j. j \<noteq> t) [Suc t..<n] = [Suc t..<n]"
    by (rule filter_True) simp
  show ?thesis
    by (simp only: split filter_append filter.simps l r) simp
qed

lemma non_targets_nth:
  assumes "t < length displays" and "j < length displays" and "j \<noteq> t"
  shows "write_index t j - 1 < length (non_targets t displays) \<and>
         non_targets t displays ! (write_index t j - 1) = displays ! j"
proof (cases "j < t")
  case True
  with assms show ?thesis
    by (simp add: non_targets_def filter_upt_neq write_index_def nth_append)
next
  case False
  with assms have "t < j" by simp
  with assms show ?thesis
    by (auto simp add: non_targets_def filter_upt_neq write_index_def nth_append)
qed

lemma reposition_all_extends:
  "\<exists>rest. calls (snd (reposition_all w ox oy ds s)) = calls s @ rest"
proof (induction ds arbitrary: s)
  case Nil
  show ?case by simp
next
  case (Cons d ds)
  let ?s = "\<lparr>calls = calls s @ [reposition_call w d ox oy], printed = printed s\<rparr>"
  from Cons.IH [of ?s] obtain rest
    where "calls (snd (reposition_all w ox oy ds ?s)) = calls ?s @ rest" ..
  then show ?case by simp
qed

lemma body_first_call:
  assumes fp: "first_primary displays p" and n: "length displays \<noteq> 1"
  shows "\<exists>rest. calls (snd (SwitchPrimaryToNext_body w displays s)) =
           calls s @ target_write w (target_of displays p) # rest"
proof (cases "ChangeDisplaySettingsExW w (calls s) (target_write w (target_of displays p))
                = DISP_CHANGE_SUCCESSFUL w")
  case False
  from body_target_fails [OF fp n False] show ?thesis by simp
next
  case True
  let ?s1 = "\<lparr>calls = calls s @ [target_write w (target_of displays p)], printed = printed s\<rparr>"
  let ?res = "reposition_all w (- POINTL_x (position (target_of displays p)))
             (- POINTL_y (position (target_of displays p)))
             (non_targets (successor displays p) displays) ?s1"
  obtain rest where rest: "calls (snd ?res) = calls ?s1 @ rest"
    using reposition_all_extends by blast
  obtain code s2 where res: "?res = (code, s2)" by (cases ?res)
  with rest have s2: "calls s2 = calls s @ target_write w (target_of displays p) # rest"
    by simp
  from body_target_ok [OF fp n True] res s2 show ?thesis
    by (cases code) (simp_all add: successor_def)
qed

lemma monitor_write:
  assumes "t < length displays" and "j < length displays" and "j \<noteq> t"
  shows "write_index t j < Suc (length (non_targets t displays)) \<and>
         (target_call # map f (non_targets t displays)) ! write_index t j = f (displays ! j)"
proof -
  from non_targets_nth [OF assms]
  have lt: "write_index t j - 1 < length (non_targets t displays)"
    and nth: "non_targets t displays ! (write_index t j - 1) = displays ! j"
    by simp_all
  from assms have pos: "0 < write_index t j"
    by (auto simp: write_index_def)
  then obtain i where i: "write_index t j = Suc i"
    by (cases "write_index t j") simp_all
  with lt nth show ?thesis by simp
qed

lemma exactly_one_first:
  assumes "p < length displays" and "isPrimary (displays ! p)"
    and "\<forall>j<length displays. isPrimary (displays ! j) \<longrightarrow> j = p"
  shows "first_primary displays p"
proof -
  have "\<not> isPrimary (displays ! j)" if "j < p" for j
  proof
    assume "isPrimary (displays ! j)"
    moreover from that assms(1) have "j < length displays" by simp
    ultimately have "j = p" using assms(3) by blast
    with that show False by simp
  qed
  with assms(1,2) show ?thesis
    by (simp add: first_primary_def)
qed

lemma length_non_targets:
  "t < length displays \<Longrightarrow> length (non_targets t displays) = length displays - 1"
  by (simp add: non_targets_def filter_upt_neq)

lemma successor_in_range: "displays \<noteq> [] \<Longrightarrow> successor displays p < length displays"
  by (simp add: successor_def)

lemma writes_monitor:
  assumes "displays \<noteq> []" and "j < length displays" and "j \<noteq> successor displays p"
  shows "write_index (successor displays p) j < length (writes w displays p) \<and>
         writes w displays p ! write_index (successor displays p) j
           = other_write w (target_of displays p) (displays ! j)"
  using monitor_write [OF successor_in_range [OF assms(1)] assms(2,3)]
  by (simp add: writes_def)

lemma other_write_fields:
  "lpszDeviceName (other_write w target d) = Some (DeviceName (dd d))"
  "staged_position (other_write w target d) =
     Some \<lparr>POINTL_x = POINTL_x (position d) + - POINTL_x (position target),
           POINTL_y = POINTL_y (position d) + - POINTL_y (position target)\<rparr>"
  "dwflags (other_write w target d) = CDS_UPDATEREGISTRY w OR CDS_NORESET w"
  "lpDevMode (other_write w target d) =
     Some ((dm d)\<lparr>dmFields := dmFields (dm d) OR DM_POSITION w,
                  dmPosition := \<lparr>POINTL_x = POINTL_x (position d) + - POINTL_x (position target),
                                POINTL_y = POINTL_y (position d) + - POINTL_y (position target)\<rparr>\<rparr>)"
  by (simp_all add: other_write_def reposition_call_def rebased_def staged_position_def
      position_def)

lemma target_write_fields:
  "lpszDeviceName (target_write w target) = Some (DeviceName (dd target))"
  "staged_position (target_write w target) = Some \<lparr>POINTL_x = 0, POINTL_y = 0\<rparr>"
  "dwflags (target_write w target) = CDS_SET_PRIMARY w OR CDS_UPDATEREGISTRY w OR CDS_NORESET w"
  "lpDevMode (target_write w target) =
     Some ((dm target)\<lparr>dmFields := dmFields (dm target) OR DM_POSITION w,
                       dmPosition := \<lparr>POINTL_x = 0, POINTL_y = 0\<rparr>\<rparr>)"
  by (simp_all add: target_write_def set_primary_call_def rebased_def staged_position_def
      position_def)

lemma reposition_call_cong:
  "dd d = dd d' \<Longrightarrow> dm d = dm d' \<Longrightarrow>
   reposition_call w d ox oy = reposition_call w d' ox oy"
  by (simp add: reposition_call_def rebased_def)

lemma reposition_all_cong:
  "list_all2 (\<lambda>d d'. dd d = dd d' \<and> dm d = dm d') ds ds' \<Longrightarrow>
   reposition_all w ox oy ds s = reposition_all w ox oy ds' s"
proof (induction ds ds' arbitrary: s rule: list_all2_induct)
  case Nil
  show ?case by simp
next
  case (Cons d ds d' ds')
  from Cons.hyps(1) have c: "reposition_call w d ox oy = reposition_call w d' ox oy"
    by (intro reposition_call_cong) simp_all
  from Cons.hyps(1) have nm: "DeviceName (dd d) = DeviceName (dd d')" by simp
  show ?case
    by (simp add: c nm Cons.IH)
qed

lemma length_only_primary: "length (only_primary p displays) = length displays"
  by (simp add: only_primary_def)

lemma only_primary_nth:
  "j < length displays \<Longrightarrow> only_primary p displays ! j = (displays ! j)\<lparr>isPrimary := (j = p)\<rparr>"
  by (simp add: only_primary_def)

lemma first_primary_only_primary:
  "p < length displays \<Longrightarrow> first_primary (only_primary p displays) p"
  by (simp add: first_primary_def length_only_primary only_primary_nth)

lemma non_targets_only_primary:
  "list_all2 (\<lambda>d d'. dd d = dd d' \<and> dm d = dm d')
     (non_targets t displays) (non_targets t (only_primary p displays))"
proof -
  have "list_all2 (\<lambda>d d'. dd d = dd d' \<and> dm d = dm d')
     (map ((!) displays) js) (map ((!) (only_primary p displays)) js)"
    if "\<forall>j\<in>set js. j < length displays" for js
    using that by (induction js) (simp_all add: only_primary_nth)
  from this [of "filter (\<lambda>j. j \<noteq> t) [0..<length displays]"]
  show ?thesis
    by (simp add: non_targets_def length_only_primary)
qed

lemma body_only_primary:
  assumes fp: "first_primary displays p" and n: "length displays \<noteq> 1"
  shows "SwitchPrimaryToNext_body w displays s =
         SwitchPrimaryToNext_body w (only_primary p displays) s"
proof -
  let ?ds = "only_primary p displays"
  from fp have pl: "p < length displays" and ne: "displays \<noteq> []"
    by (auto simp: first_primary_def)
  have fp': "first_primary ?ds p"
    by (rule first_primary_only_primary [OF pl])
  have n': "length ?ds \<noteq> 1"
    using n by (simp add: length_only_primary)
  have su: "successor ?ds p = successor displays p"
    by (simp add: successor_def length_only_primary)
  have tg: "target_of ?ds p = (target_of displays p)\<lparr>isPrimary := (successor displays p = p)\<rparr>"
    using successor_in_range [OF ne, of p]
    by (simp add: target_of_def su only_primary_nth)
  have tw: "target_write w (target_of ?ds p) = target_write w (target_of displays p)"
    by (simp add: tg target_write_def set_primary_call_def rebased_def position_def)
  have ps: "position (target_of ?ds p) = position (target_of displays p)"
    by (simp add: tg position_def)
  have nm: "DeviceName (dd (target_of ?ds p)) = DeviceName (dd (target_of displays p))"
    by (simp add: tg)
  have ra: "reposition_all w ox oy (non_targets (successor displays p) ?ds) s'
      = reposition_all w ox oy (non_targets (successor displays p) displays) s'" for ox oy s'
    by (rule reposition_all_cong [symmetric]) (rule non_targets_only_primary)
  show ?thesis
  proof (cases "ChangeDisplaySettingsExW w (calls s) (target_write w (target_of displays p))
                  = DISP_CHANGE_SUCCESSFUL w")
    case False
    from False have "ChangeDisplaySettingsExW w (calls s) (target_write w (target_of ?ds p))
        \<noteq> DISP_CHANGE_SUCCESSFUL w"
      by (simp add: tw)
    from body_target_fails [OF fp n False] body_target_fails [OF fp' n' this]
    show ?thesis by (simp add: tw nm)
  next
    case True
    from True have "ChangeDisplaySettingsExW w (calls s) (target_write w (target_of ?ds p))
        = DISP_CHANGE_SUCCESSFUL w"
      by (simp add: tw)
    from body_target_ok [OF fp' n' this]
    have "SwitchPrimaryToNext_body w ?ds s =
      (case reposition_all w (- POINTL_x (position (target_of displays p)))
             (- POINTL_y (position (target_of displays p)))
             (non_targets (successor displays p) displays)
             \<lparr>calls = calls s @ [target_write w (target_of displays p)], printed = printed s\<rparr> of
        (Some code, s2) \<Rightarrow> (code, s2)
      | (None, s2) \<Rightarrow>
          if ChangeDisplaySettingsExW w (calls s2) apply_call \<noteq> DISP_CHANGE_SUCCESSFUL w
          then (5, \<lparr>calls = calls s2 @ [apply_call],
                    printed = printed s2 @
                      [Final_apply_failed (ChangeDisplaySettingsExW w (calls s2) apply_call)]\<rparr>)
          else (0, \<lparr>calls = calls s2 @ [apply_call],
                    printed = printed s2 @
                      [Primary_display_switched_to (DeviceName (dd (target_of displays p)))]\<rparr>))"
      unfolding tw nm ps su ra .
    with body_target_ok [OF fp n True] show ?thesis by simp
  qed
qed

lemma calls_shape:
  assumes en: "EnumerateDisplays w = Some (found, displays, log)"
    and fp: "first_primary displays p" and n: "length displays \<noteq> 1"
    and run: "SwitchPrimaryToNext w = Some (code, r)"
  shows "(\<exists>m<length (writes w displays p). calls r = take (Suc m) (writes w displays p)) \<or>
         calls r = writes w displays p @ [apply_call]"
proof (cases rule: writes_dichotomy [of "writes w displays p" w])
  case (fails m)
  from run_write_fails [OF en fp n fails] run have "calls r = take (Suc m) (writes w displays p)"
    by auto
  with fails(1) show ?thesis by blast
next
  case all_ok
  from run_all_staged [OF en fp n all_ok] run have "calls r = writes w displays p @ [apply_call]"
    by (auto split: if_splits)
  then show ?thesis by simp
qed

lemma length_written: "displays \<noteq> [] \<Longrightarrow> length (written displays p) = length displays"
  by (simp add: written_def length_non_targets successor_in_range)

lemma writes_frame:
  assumes "k < length (written displays p)"
  shows "lpszDeviceName (writes w displays p ! k) = Some (DeviceName (dd (written displays p ! k))) \<and>
     (\<exists>pos. lpDevMode (writes w displays p ! k) =
        Some ((dm (written displays p ! k))
                \<lparr>dmFields := dmFields (dm (written displays p ! k)) OR DM_POSITION w,
                 dmPosition := pos\<rparr>)) \<and>
     dwflags (writes w displays p ! k) =
       (if k = 0 then CDS_SET_PRIMARY w OR CDS_UPDATEREGISTRY w OR CDS_NORESET w
        else CDS_UPDATEREGISTRY w OR CDS_NORESET w)"
proof -
  have ex: "\<exists>pos. m\<lparr>dmFields := f, dmPosition := q\<rparr> = m\<lparr>dmFields := f, dmPosition := pos\<rparr>"
    for m :: DEVMODEW and f q
    by (rule exI [of _ q]) (rule refl)
  show ?thesis
    unfolding writes_nth [OF assms]
    by (simp add: set_primary_call_def reposition_call_def rebased_def ex)
qed

section \<open>The concrete desktops, evaluated\<close>

lemma enumerate_three:
  "EnumerateDisplays (windows_sdk three_devices (three_settings flds) change) =
     Some (True, three_monitors flds, [PrintLastError ''EnumDisplaySettingsEx''])"
  by (simp add: EnumerateDisplays_def EnumerateDisplays_loop.simps windows_sdk_def
      three_devices_def three_settings_def device_def three_monitors_def monitor_def)

lemma first_primary_three: "first_primary (three_monitors flds) 0"
  by (simp add: first_primary_def three_monitors_def monitor_def)

lemma target_of_three: "target_of (three_monitors flds) 0 = monitor ''B'' 0x1 flds 1920 0 False"
  by (simp add: target_of_def successor_def three_monitors_def)

lemma writes_three:
  "writes (windows_sdk devs settings change) (three_monitors flds) 0 =
     [\<lparr>lpszDeviceName = Some ''B'', lpDevMode = Some (settings_at (flds OR 0x20) 0 0),
       dwflags = 0x10000011\<rparr>,
      \<lparr>lpszDeviceName = Some ''A'', lpDevMode = Some (settings_at (flds OR 0x20) (- 1920) 0),
       dwflags = 0x10000001\<rparr>,
      \<lparr>lpszDeviceName = Some ''C'', lpDevMode = Some (settings_at (flds OR 0x20) (- 3840) 0),
       dwflags = 0x10000001\<rparr>]"
  by (simp add: writes_def target_of_three non_targets_def successor_def
      target_write_def other_write_fun set_primary_call_def reposition_call_def rebased_def
      position_def windows_sdk_def)
     (simp add: three_monitors_def monitor_def device_def settings_at_def)

lemma run_three_ok:
  "SwitchPrimaryToNext (windows_sdk three_devices (three_settings flds) (always 0)) =
     Some (0, \<lparr>calls =
                 [\<lparr>lpszDeviceName = Some ''B'', lpDevMode = Some (settings_at (flds OR 0x20) 0 0),
                   dwflags = 0x10000011\<rparr>,
                  \<lparr>lpszDeviceName = Some ''A'',
                   lpDevMode = Some (settings_at (flds OR 0x20) (- 1920) 0),
                   dwflags = 0x10000001\<rparr>,
                  \<lparr>lpszDeviceName = Some ''C'',
                   lpDevMode = Some (settings_at (flds OR 0x20) (- 3840) 0),
                   dwflags = 0x10000001\<rparr>,
                  apply_call],
               printed = [PrintLastError ''EnumDisplaySettingsEx'',
                          Primary_display_switched_to ''B'']\<rparr>)"
proof -
  let ?w = "windows_sdk three_devices (three_settings flds) (always 0)"
  have acc: "accepted ?w history c" for history c
    by (simp add: accepted_def windows_sdk_def always_def)
  have "SwitchPrimaryToNext ?w =
     Some (0, \<lparr>calls = writes ?w (three_monitors flds) 0 @ [apply_call],
               printed = [PrintLastError ''EnumDisplaySettingsEx''] @
                 [Primary_display_switched_to (DeviceName (dd (target_of (three_monitors flds) 0)))]\<rparr>)"
    using run_all_staged [OF enumerate_three first_primary_three, of flds "always 0"] acc
    by (simp add: three_monitors_def)
  then show ?thesis
    by (simp add: writes_three target_of_three monitor_def device_def)
qed

lemma enumerate_double:
  "EnumerateDisplays (windows_sdk double_devices (three_settings flds) change) =
     Some (True, double_monitors flds, [])"
  by (simp add: EnumerateDisplays_def EnumerateDisplays_loop.simps windows_sdk_def
      double_devices_def three_settings_def device_def double_monitors_def monitor_def)

section \<open>The claims\<close>

text \<open>
  C1. For every topology with \<open>N \<ge> 2\<close> monitors in enumeration order and exactly one
  monitor flagged primary, at index \<open>p\<close>, the search of lines 70-73 finds \<open>p\<close>, line 84
  computes the target index \<open>(p + 1) mod N\<close>, and the first call of the run writes the
  monitor at that index.
\<close>

theorem C1_rotation_selects_successor:
  assumes "2 \<le> length displays" and "p < length displays" and "isPrimary (displays ! p)"
    and "\<forall>j<length displays. isPrimary (displays ! j) \<longrightarrow> j = p"
  shows "find_current_primary displays 0 = int p \<and>
         targetIndex_of (find_current_primary displays 0) displays
           = int ((p + 1) mod length displays) \<and>
         (\<exists>rest. calls (snd (SwitchPrimaryToNext_body w displays s)) =
            calls s @ target_write w (displays ! ((p + 1) mod length displays)) # rest)"
proof -
  have fp: "first_primary displays p"
    by (rule exactly_one_first [OF assms(2,3,4)])
  from assms(1) have ne: "displays \<noteq> []" and n: "length displays \<noteq> 1" by auto
  have "find_current_primary displays 0 = int p"
    by (rule find_first_primary [OF fp])
  moreover have "targetIndex_of (int p) displays = int ((p + 1) mod length displays)"
    by (rule targetIndex_of_nat [OF ne])
  moreover from body_first_call [OF fp n, of w s]
  have "\<exists>rest. calls (snd (SwitchPrimaryToNext_body w displays s)) =
            calls s @ target_write w (displays ! ((p + 1) mod length displays)) # rest"
    by (simp add: target_of_def successor_def)
  ultimately show ?thesis by simp
qed

theorem C1_witness:
  "find_current_primary two_monitors 0 = 1 \<and>
   targetIndex_of (find_current_primary two_monitors 0) two_monitors = 0 \<and>
   (\<exists>rest. calls (snd (SwitchPrimaryToNext_body
                          (windows_sdk [] (\<lambda>name. None) (always 0)) two_monitors
                          \<lparr>calls = [], printed = []\<rparr>)) =
      \<lparr>lpszDeviceName = Some ''A'', lpDevMode = Some (settings_at 0x7C00A0 0 0),
       dwflags = 0x10000011\<rparr> # rest)"
proof -
  have h: "2 \<le> length two_monitors" "1 < length two_monitors" "isPrimary (two_monitors ! 1)"
    "\<forall>j<length two_monitors. isPrimary (two_monitors ! j) \<longrightarrow> j = 1"
    by (simp_all add: two_monitors_def monitor_def All_less_Suc)
  have c: "target_write (windows_sdk [] (\<lambda>name. None) (always 0)) (two_monitors ! 0) =
      \<lparr>lpszDeviceName = Some ''A'', lpDevMode = Some (settings_at 0x7C00A0 0 0),
       dwflags = 0x10000011\<rparr>"
    by (simp add: two_monitors_def monitor_def device_def settings_at_def target_write_def
        set_primary_call_def rebased_def position_def windows_sdk_def)
  have e: "(1 + 1) mod length two_monitors = 0" "int 1 = 1" "int 0 = 0"
    by (simp_all add: two_monitors_def)
  from C1_rotation_selects_successor [OF h,
      of "windows_sdk [] (\<lambda>name. None) (always 0)" "\<lparr>calls = [], printed = []\<rparr>"]
  show ?thesis
    unfolding e c append_Nil run.simps .
qed

text \<open>
  C2, as the code has it. For every topology with exactly one monitor no write call is
  issued; the run reports success (0) when that monitor is flagged primary, and
  "could not identify the current primary" (2) when it is not: the search for the
  primary (line 74) comes before the test for a single display (line 79).
\<close>

theorem C2_single_monitor:
  assumes "EnumerateDisplays w = Some (found, displays, log)" and "length displays = 1"
  shows "\<exists>r. SwitchPrimaryToNext w = Some (if isPrimary (displays ! 0) then 0 else 2, r) \<and>
             calls r = []"
proof (cases "isPrimary (displays ! 0)")
  case True
  with assms(2) have "first_primary displays 0" by (simp add: first_primary_def)
  from run_single [OF assms(1,2) this] True show ?thesis by simp
next
  case False
  from assms(2) have ne: "displays \<noteq> []" by auto
  from assms(2) have "displays = [displays ! 0]"
    by (cases displays) simp_all
  then have "set displays = {displays ! 0}"
    by (metis list.simps(15) empty_set)
  with False have "\<forall>d\<in>set displays. \<not> isPrimary d"
    by simp
  from run_no_primary [OF assms(1) ne this] False show ?thesis by simp
qed

theorem C2_witness:
  "EnumerateDisplays (windows_sdk single_devices (three_settings 0x7C00A0) (always 0)) =
     Some (True, [monitor ''A'' 0x5 0x7C00A0 0 0 True], []) \<and>
   (\<exists>r. SwitchPrimaryToNext (windows_sdk single_devices (three_settings 0x7C00A0) (always 0))
           = Some (0, r) \<and> calls r = [])"
proof -
  have en: "EnumerateDisplays (windows_sdk single_devices (three_settings 0x7C00A0) (always 0)) =
     Some (True, [monitor ''A'' 0x5 0x7C00A0 0 0 True], [])"
    by (simp add: EnumerateDisplays_def EnumerateDisplays_loop.simps windows_sdk_def
        single_devices_def three_settings_def device_def monitor_def)
  from C2_single_monitor [OF en] en show ?thesis
    by (simp add: monitor_def)
qed

text \<open>
  The claim as stated fails where the single monitor is not flagged primary: the
  settings of the primary device X cannot be read, the one monitor left is B, and the
  run returns 2.
\<close>

theorem C2_counterexample:
  "EnumerateDisplays (windows_sdk orphan_devices (three_settings 0x7C00A0) (always 0)) =
     Some (True, [monitor ''B'' 0x1 0x7C00A0 1920 0 False],
           [PrintLastError ''EnumDisplaySettingsEx'']) \<and>
   SwitchPrimaryToNext (windows_sdk orphan_devices (three_settings 0x7C00A0) (always 0)) =
     Some (2, \<lparr>calls = [],
               printed = [PrintLastError ''EnumDisplaySettingsEx'',
                          Could_not_identify_current_primary_display]\<rparr>)"
  by (simp add: SwitchPrimaryToNext_def SwitchPrimaryToNext_body_def EnumerateDisplays_def
      EnumerateDisplays_loop.simps find_current_primary.simps windows_sdk_def
      orphan_devices_def three_settings_def device_def monitor_def)

text \<open>
  C3. For every topology in which a target is selected (two or more monitors, \<open>p\<close> the
  current primary), after a run that returns 0 the first call names the target, stages
  the position (0,0) for it and carries \<open>CDS_SET_PRIMARY\<close>; the last call is the final
  apply, and the service accepted every call. Positions are 32-bit words, so this holds
  for every starting position of the target, with the offset its wrapped negation.
\<close>

theorem C3_target_at_origin:
  assumes "EnumerateDisplays w = Some (found, displays, log)"
    and "first_primary displays p" and "length displays \<noteq> 1"
    and "SwitchPrimaryToNext w = Some (0, r)"
  shows "calls r \<noteq> [] \<and>
         lpszDeviceName (hd (calls r)) = Some (DeviceName (dd (target_of displays p))) \<and>
         staged_position (hd (calls r)) = Some \<lparr>POINTL_x = 0, POINTL_y = 0\<rparr> \<and>
         dwflags (hd (calls r)) AND CDS_SET_PRIMARY w = CDS_SET_PRIMARY w \<and>
         last (calls r) = apply_call \<and>
         (\<forall>k<length (calls r). accepted w (take k (calls r)) (calls r ! k))"
proof -
  let ?ws = "writes w displays p"
  from run_success [OF assms]
  have ok: "\<forall>k<length ?ws. accepted w (take k ?ws) (?ws ! k)"
    and ap: "accepted w ?ws apply_call"
    and r: "calls r = ?ws @ [apply_call]"
    by simp_all
  have hd: "hd (calls r) = target_write w (target_of displays p)"
    by (simp add: r writes_def)
  have acc: "\<forall>k<length (calls r). accepted w (take k (calls r)) (calls r ! k)"
  proof (intro allI impI)
    fix k assume "k < length (calls r)"
    then have "k < length ?ws \<or> k = length ?ws" by (auto simp: r)
    then show "accepted w (take k (calls r)) (calls r ! k)"
    proof
      assume "k < length ?ws"
      with ok show ?thesis by (simp add: r nth_append)
    next
      assume "k = length ?ws"
      with ap show ?thesis by (simp add: r)
    qed
  qed
  have "dwflags (target_write w (target_of displays p)) AND CDS_SET_PRIMARY w = CDS_SET_PRIMARY w"
    by (simp add: target_write_def set_primary_call_def or_and_self)
  with hd r acc show ?thesis
    by (simp add: staged_position_def target_write_def set_primary_call_def rebased_def position_def)
qed

theorem C3_witness:
  "\<exists>r. SwitchPrimaryToNext (windows_sdk three_devices (three_settings 0x7C00A0) (always 0))
         = Some (0, r) \<and>
       lpszDeviceName (hd (calls r)) = Some ''B'' \<and>
       staged_position (hd (calls r)) = Some \<lparr>POINTL_x = 0, POINTL_y = 0\<rparr> \<and>
       dwflags (hd (calls r)) AND 0x10 = 0x10 \<and>
       last (calls r) = apply_call"
proof -
  have n: "length (three_monitors 0x7C00A0) \<noteq> 1"
    by (simp add: three_monitors_def)
  have sp: "CDS_SET_PRIMARY (windows_sdk three_devices (three_settings 0x7C00A0) (always 0)) = 0x10"
    by (simp add: windows_sdk_def)
  have nm: "DeviceName (dd (target_of (three_monitors 0x7C00A0) 0)) = ''B''"
    by (simp add: target_of_three monitor_def device_def)
  from C3_target_at_origin [OF enumerate_three first_primary_three n run_three_ok]
  show ?thesis
    by (simp add: run_three_ok sp nm)
qed

text \<open>
  C4. For every topology in which a target is selected, after a run that returns 0
  there are \<open>N + 1\<close> calls: the target's, then one for every other monitor in enumeration
  order, then the final apply. The call for monitor \<open>j\<close> names it, stages its original
  position plus the negation of the target's original position and has the flags
  \<open>CDS_UPDATEREGISTRY | CDS_NORESET\<close>; the difference between the staged positions of any
  two non-target monitors is the difference between their original positions. Positions
  are 32-bit words, and so are the sums and differences.
\<close>

theorem C4_translation_invariance:
  assumes "EnumerateDisplays w = Some (found, displays, log)"
    and "first_primary displays p" and "length displays \<noteq> 1"
    and "SwitchPrimaryToNext w = Some (0, r)"
  shows "length (calls r) = length displays + 1 \<and>
         map lpszDeviceName (calls r) =
           Some (DeviceName (dd (target_of displays p))) #
           map (\<lambda>d. Some (DeviceName (dd d))) (non_targets (successor displays p) displays) @
           [None] \<and>
         (\<forall>j<length displays. j \<noteq> successor displays p \<longrightarrow>
            lpszDeviceName (calls r ! write_index (successor displays p) j)
              = Some (DeviceName (dd (displays ! j))) \<and>
            staged_position (calls r ! write_index (successor displays p) j)
              = Some \<lparr>POINTL_x = POINTL_x (position (displays ! j))
                                  + - POINTL_x (position (target_of displays p)),
                      POINTL_y = POINTL_y (position (displays ! j))
                                  + - POINTL_y (position (target_of displays p))\<rparr> \<and>
            dwflags (calls r ! write_index (successor displays p) j)
              = CDS_UPDATEREGISTRY w OR CDS_NORESET w) \<and>
         (\<forall>i<length displays. \<forall>j<length displays.
            i \<noteq> successor displays p \<longrightarrow> j \<noteq> successor displays p \<longrightarrow>
            (\<exists>a b. staged_position (calls r ! write_index (successor displays p) i) = Some a \<and>
                   staged_position (calls r ! write_index (successor displays p) j) = Some b \<and>
                   POINTL_x a - POINTL_x b
                     = POINTL_x (position (displays ! i)) - POINTL_x (position (displays ! j)) \<and>
                   POINTL_y a - POINTL_y b
                     = POINTL_y (position (displays ! i)) - POINTL_y (position (displays ! j))))"
proof -
  let ?t = "successor displays p"
  let ?ws = "writes w displays p"
  from assms(2) have ne: "displays \<noteq> []" by (rule first_primary_nonempty)
  from run_success [OF assms] have r: "calls r = ?ws @ [apply_call]" by simp
  have len: "length (calls r) = length displays + 1"
    using ne by (simp add: r writes_def length_non_targets successor_in_range)
  have names: "map lpszDeviceName (calls r) =
           Some (DeviceName (dd (target_of displays p))) #
           map (\<lambda>d. Some (DeviceName (dd d))) (non_targets ?t displays) @ [None]"
    by (simp add: r writes_def target_write_fields other_write_fields apply_call_def)
  have call: "calls r ! write_index ?t j = other_write w (target_of displays p) (displays ! j)"
    if "j < length displays" "j \<noteq> ?t" for j
    using writes_monitor [OF ne that, of w] by (simp add: r nth_append)
  have each: "\<forall>j<length displays. j \<noteq> ?t \<longrightarrow>
            lpszDeviceName (calls r ! write_index ?t j) = Some (DeviceName (dd (displays ! j))) \<and>
            staged_position (calls r ! write_index ?t j)
              = Some \<lparr>POINTL_x = POINTL_x (position (displays ! j))
                                  + - POINTL_x (position (target_of displays p)),
                      POINTL_y = POINTL_y (position (displays ! j))
                                  + - POINTL_y (position (target_of displays p))\<rparr> \<and>
            dwflags (calls r ! write_index ?t j) = CDS_UPDATEREGISTRY w OR CDS_NORESET w"
    by (simp add: call other_write_fields)
  have rel: "\<forall>i<length displays. \<forall>j<length displays. i \<noteq> ?t \<longrightarrow> j \<noteq> ?t \<longrightarrow>
            (\<exists>a b. staged_position (calls r ! write_index ?t i) = Some a \<and>
                   staged_position (calls r ! write_index ?t j) = Some b \<and>
                   POINTL_x a - POINTL_x b
                     = POINTL_x (position (displays ! i)) - POINTL_x (position (displays ! j)) \<and>
                   POINTL_y a - POINTL_y b
                     = POINTL_y (position (displays ! i)) - POINTL_y (position (displays ! j)))"
    by (simp add: call other_write_fields)
  from len names each rel show ?thesis by blast
qed

theorem C4_witness:
  "\<exists>r. SwitchPrimaryToNext (windows_sdk three_devices (three_settings 0x7C00A0) (always 0))
         = Some (0, r) \<and>
       length (calls r) = length (three_monitors 0x7C00A0) + 1 \<and>
       staged_position (calls r ! 1) = Some \<lparr>POINTL_x = 0 + - 1920, POINTL_y = 0 + - 0\<rparr> \<and>
       staged_position (calls r ! 2) = Some \<lparr>POINTL_x = - 1920 + - 1920, POINTL_y = 0 + - 0\<rparr>"
proof -
  let ?ds = "three_monitors 0x7C00A0"
  have n: "length ?ds \<noteq> 1"
    by (simp add: three_monitors_def)
  have t: "successor ?ds 0 = 1"
    by (simp add: successor_def three_monitors_def)
  have pos: "position (?ds ! 0) = \<lparr>POINTL_x = 0, POINTL_y = 0\<rparr>"
    "position (?ds ! 2) = \<lparr>POINTL_x = - 1920, POINTL_y = 0\<rparr>"
    by (simp_all add: three_monitors_def monitor_def settings_at_def position_def)
  have tpos: "position (target_of ?ds 0) = \<lparr>POINTL_x = 1920, POINTL_y = 0\<rparr>"
    by (simp add: target_of_three) (simp add: monitor_def settings_at_def position_def)
  have wi: "write_index 1 0 = 1" "write_index 1 2 = 2"
    by (simp_all add: write_index_def)
  have j0: "0 < length ?ds" "0 \<noteq> successor ?ds 0" and j2: "2 < length ?ds" "2 \<noteq> successor ?ds 0"
    unfolding t by (simp_all add: three_monitors_def)
  note c4 = C4_translation_invariance [OF enumerate_three first_primary_three n run_three_ok]
  note m0 = c4 [THEN conjunct2, THEN conjunct2, THEN conjunct1, rule_format, OF j0,
      THEN conjunct2, THEN conjunct1, unfolded t wi pos tpos POINTL.simps]
  note m2 = c4 [THEN conjunct2, THEN conjunct2, THEN conjunct1, rule_format, OF j2,
      THEN conjunct2, THEN conjunct1, unfolded t wi pos tpos POINTL.simps]
  from run_three_ok c4 [THEN conjunct1] m0 m2 show ?thesis
    by blast
qed

text \<open>
  C5. If the service rejects the write of the target monitor, the run returns 3 and the
  target's write is the only call made: no write for another device, no final apply.
  The message names the target and carries the code the service returned.
\<close>

theorem C5_target_write_fails:
  assumes "EnumerateDisplays w = Some (found, displays, log)"
    and "first_primary displays p" and "length displays \<noteq> 1"
    and "\<not> accepted w [] (target_write w (target_of displays p))"
  shows "SwitchPrimaryToNext w =
           Some (3, \<lparr>calls = [target_write w (target_of displays p)],
                     printed = log @
                       [Set_primary_failed (DeviceName (dd (target_of displays p)))
                          (ChangeDisplaySettingsExW w []
                             (target_write w (target_of displays p)))]\<rparr>) \<and>
         target_write w (target_of displays p) \<noteq> apply_call"
proof -
  let ?ws = "writes w displays p"
  have k: "0 < length ?ws" by (simp add: writes_def)
  have ok: "\<forall>i<0. accepted w (take i ?ws) (?ws ! i)" by simp
  have bad: "\<not> accepted w (take 0 ?ws) (?ws ! 0)"
    using assms(4) by (simp add: writes_def)
  have "target_write w (target_of displays p) \<noteq> apply_call"
    using apply_call_not_write [of w displays p] by (auto simp: writes_def)
  with run_write_fails [OF assms(1,2,3) k ok bad] show ?thesis
    by (simp add: writes_def written_def)
qed

theorem C5_witness:
  "SwitchPrimaryToNext (windows_sdk three_devices (three_settings 0x7C00A0) (always (- 1))) =
     Some (3, \<lparr>calls = [\<lparr>lpszDeviceName = Some ''B'',
                          lpDevMode = Some (settings_at (0x7C00A0 OR 0x20) 0 0),
                          dwflags = 0x10000011\<rparr>],
               printed = [PrintLastError ''EnumDisplaySettingsEx'',
                          Set_primary_failed ''B'' (- 1)]\<rparr>)"
proof -
  let ?w = "windows_sdk three_devices (three_settings 0x7C00A0) (always (- 1))"
  let ?ds = "three_monitors 0x7C00A0"
  have n: "length ?ds \<noteq> 1"
    by (simp add: three_monitors_def)
  have tw: "target_write ?w (target_of ?ds 0) =
      \<lparr>lpszDeviceName = Some ''B'', lpDevMode = Some (settings_at (0x7C00A0 OR 0x20) 0 0),
       dwflags = 0x10000011\<rparr>"
    using writes_three [of three_devices "three_settings 0x7C00A0" "always (- 1)" "0x7C00A0"]
    by (simp add: writes_def)
  have res: "ChangeDisplaySettingsExW ?w history c = - 1" for history c
    by (simp add: windows_sdk_def always_def)
  have bad: "\<not> accepted ?w [] (target_write ?w (target_of ?ds 0))"
    by (simp add: accepted_def res) (simp add: windows_sdk_def)
  have nm: "DeviceName (dd (target_of ?ds 0)) = ''B''"
    by (simp add: target_of_three) (simp add: monitor_def device_def)
  from C5_target_write_fails [OF enumerate_three first_primary_three n bad]
  show ?thesis
    unfolding tw nm res by simp
qed

text \<open>
  C6. If the service accepts the target's write and the writes before the \<open>k\<close>-th one
  in the sequence and rejects the \<open>k\<close>-th (\<open>k > 0\<close>: a non-target device), the run
  returns 4 and the calls made are exactly the first \<open>k + 1\<close> writes: the target and
  every earlier device have had their write issued, no later device has, and the final
  apply is not among the calls.
\<close>

theorem C6_other_write_fails:
  assumes "EnumerateDisplays w = Some (found, displays, log)"
    and "first_primary displays p" and "length displays \<noteq> 1"
    and "0 < k" and "k < length (writes w displays p)"
    and "\<forall>i<k. accepted w (take i (writes w displays p)) (writes w displays p ! i)"
    and "\<not> accepted w (take k (writes w displays p)) (writes w displays p ! k)"
  shows "SwitchPrimaryToNext w =
           Some (4, \<lparr>calls = take (Suc k) (writes w displays p),
                     printed = log @
                       [Reposition_failed (DeviceName (dd (written displays p ! k)))
                          (ChangeDisplaySettingsExW w (take k (writes w displays p))
                             (writes w displays p ! k))]\<rparr>) \<and>
         hd (take (Suc k) (writes w displays p)) = target_write w (target_of displays p) \<and>
         apply_call \<notin> set (take (Suc k) (writes w displays p))"
proof -
  have "apply_call \<notin> set (take (Suc k) (writes w displays p))"
    using apply_call_not_write [of w displays p] by (auto dest: in_set_takeD)
  moreover have "hd (take (Suc k) (writes w displays p)) = target_write w (target_of displays p)"
    by (simp add: writes_def)
  ultimately show ?thesis
    using run_write_fails [OF assms(1,2,3,5,6,7)] assms(4) by simp
qed

theorem C6_witness:
  "SwitchPrimaryToNext
     (windows_sdk three_devices (three_settings 0x7C00A0) (rejecting (Some ''C''))) =
     Some (4, \<lparr>calls = [\<lparr>lpszDeviceName = Some ''B'',
                          lpDevMode = Some (settings_at (0x7C00A0 OR 0x20) 0 0),
                          dwflags = 0x10000011\<rparr>,
                         \<lparr>lpszDeviceName = Some ''A'',
                          lpDevMode = Some (settings_at (0x7C00A0 OR 0x20) (- 1920) 0),
                          dwflags = 0x10000001\<rparr>,
                         \<lparr>lpszDeviceName = Some ''C'',
                          lpDevMode = Some (settings_at (0x7C00A0 OR 0x20) (- 3840) 0),
                          dwflags = 0x10000001\<rparr>],
               printed = [PrintLastError ''EnumDisplaySettingsEx'',
                          Reposition_failed ''C'' (- 1)]\<rparr>)"
proof -
  let ?w = "windows_sdk three_devices (three_settings 0x7C00A0) (rejecting (Some ''C''))"
  let ?ds = "three_monitors 0x7C00A0"
  note ws = writes_three [of three_devices "three_settings 0x7C00A0" "rejecting (Some ''C'')"
      "0x7C00A0"]
  have n: "length ?ds \<noteq> 1"
    by (simp add: three_monitors_def)
  have acc: "accepted ?w history c \<longleftrightarrow> lpszDeviceName c \<noteq> Some ''C''" for history c
    by (simp add: accepted_def windows_sdk_def rejecting_def)
  have res: "ChangeDisplaySettingsExW ?w history c = (if lpszDeviceName c = Some ''C'' then - 1 else 0)"
    for history c
    by (simp add: windows_sdk_def rejecting_def)
  have k: "(0::nat) < 2" "2 < length (writes ?w ?ds 0)"
    by (simp_all add: ws)
  have ok: "\<forall>i<2. accepted ?w (take i (writes ?w ?ds 0)) (writes ?w ?ds 0 ! i)"
    unfolding acc ws by (simp add: numeral_2_eq_2 All_less_Suc)
  have bad: "\<not> accepted ?w (take 2 (writes ?w ?ds 0)) (writes ?w ?ds 0 ! 2)"
    unfolding acc ws by simp
  have nm: "DeviceName (dd (written ?ds 0 ! 2)) = ''C''"
    by (simp add: written_def non_targets_def successor_def three_monitors_def)
       (simp add: monitor_def device_def)
  from C6_other_write_fails [OF enumerate_three first_primary_three n k ok bad]
  show ?thesis
    unfolding nm res ws by simp
qed

text \<open>
  C7. Once the displays are enumerated the run returns, the exit status of \<open>wWinMain\<close>
  is the value returned, and that value is one of 0 to 5, each exactly when its outcome
  occurs: 1 no displays; 2 displays but none flagged primary; 3 the service rejects the
  target's write; 4 it accepts the target's write and rejects the write of a later
  device; 5 it accepts every write and rejects the final apply; 0 a single monitor,
  flagged primary, or every call accepted. The value is one number, so the outcomes
  exclude each other.
\<close>

theorem C7_exit_status:
  assumes "EnumerateDisplays w = Some (found, displays, log)"
  shows "\<exists>code r. SwitchPrimaryToNext w = Some (code, r) \<and> wWinMain w = Some code \<and>
     code \<in> {0, 1, 2, 3, 4, 5} \<and>
     (code = 1 \<longleftrightarrow> displays = []) \<and>
     (code = 2 \<longleftrightarrow> displays \<noteq> [] \<and> (\<forall>d\<in>set displays. \<not> isPrimary d)) \<and>
     (code = 3 \<longleftrightarrow>
        (\<exists>p. first_primary displays p \<and> 2 \<le> length displays \<and>
             \<not> accepted w [] (target_write w (target_of displays p)))) \<and>
     (code = 4 \<longleftrightarrow>
        (\<exists>p k. first_primary displays p \<and> 2 \<le> length displays \<and>
             0 < k \<and> k < length (writes w displays p) \<and>
             (\<forall>i<k. accepted w (take i (writes w displays p)) (writes w displays p ! i)) \<and>
             \<not> accepted w (take k (writes w displays p)) (writes w displays p ! k))) \<and>
     (code = 5 \<longleftrightarrow>
        (\<exists>p. first_primary displays p \<and> 2 \<le> length displays \<and>
             (\<forall>k<length (writes w displays p).
                accepted w (take k (writes w displays p)) (writes w displays p ! k)) \<and>
             \<not> accepted w (writes w displays p) apply_call)) \<and>
     (code = 0 \<longleftrightarrow>
        (\<exists>p. first_primary displays p \<and>
             (length displays = 1 \<or>
              (\<forall>k<length (writes w displays p).
                 accepted w (take k (writes w displays p)) (writes w displays p ! k)) \<and>
              accepted w (writes w displays p) apply_call)))"
proof -
  define c1 where "c1 \<longleftrightarrow> displays = []"
  define c2 where "c2 \<longleftrightarrow> displays \<noteq> [] \<and> (\<forall>d\<in>set displays. \<not> isPrimary d)"
  define c3 where "c3 \<longleftrightarrow>
        (\<exists>p. first_primary displays p \<and> 2 \<le> length displays \<and>
             \<not> accepted w [] (target_write w (target_of displays p)))"
  define c4 where "c4 \<longleftrightarrow>
        (\<exists>p k. first_primary displays p \<and> 2 \<le> length displays \<and>
             0 < k \<and> k < length (writes w displays p) \<and>
             (\<forall>i<k. accepted w (take i (writes w displays p)) (writes w displays p ! i)) \<and>
             \<not> accepted w (take k (writes w displays p)) (writes w displays p ! k))"
  define c5 where "c5 \<longleftrightarrow>
        (\<exists>p. first_primary displays p \<and> 2 \<le> length displays \<and>
             (\<forall>k<length (writes w displays p).
                accepted w (take k (writes w displays p)) (writes w displays p ! k)) \<and>
             \<not> accepted w (writes w displays p) apply_call)"
  define c0 where "c0 \<longleftrightarrow>
        (\<exists>p. first_primary displays p \<and>
             (length displays = 1 \<or>
              (\<forall>k<length (writes w displays p).
                 accepted w (take k (writes w displays p)) (writes w displays p ! k)) \<and>
              accepted w (writes w displays p) apply_call))"
  obtain code r where run: "SwitchPrimaryToNext w = Some (code, r)"
    using SwitchPrimaryToNext_enumerated [OF assms] by (metis surj_pair)
  have main: "wWinMain w = Some code"
    by (simp add: wWinMain_def run)
  have A1: "code = 1" if c1
    using run_no_displays [of w found log] assms that run by (simp add: c1_def)
  have A2: "code = 2" if c2
    using run_no_primary [OF assms] that run by (simp add: c2_def)
  have A3: "code = 3" if c3
  proof -
    from that obtain p where fp: "first_primary displays p" and n: "2 \<le> length displays"
      and bad: "\<not> accepted w [] (target_write w (target_of displays p))"
      by (auto simp: c3_def)
    from n have n1: "length displays \<noteq> 1" by simp
    have k: "0 < length (writes w displays p)" by (simp add: writes_def)
    have ok: "\<forall>i<0. accepted w (take i (writes w displays p)) (writes w displays p ! i)"
      by simp
    have bad0: "\<not> accepted w (take 0 (writes w displays p)) (writes w displays p ! 0)"
      using bad by (simp add: writes_def)
    from run_write_fails [OF assms fp n1 k ok bad0] run show ?thesis by simp
  qed
  have A4: "code = 4" if c4
  proof -
    from that obtain p k where fp: "first_primary displays p" and n: "2 \<le> length displays"
      and k0: "0 < k" and k: "k < length (writes w displays p)"
      and ok: "\<forall>i<k. accepted w (take i (writes w displays p)) (writes w displays p ! i)"
      and bad: "\<not> accepted w (take k (writes w displays p)) (writes w displays p ! k)"
      unfolding c4_def by blast
    from n have n1: "length displays \<noteq> 1" by simp
    from run_write_fails [OF assms fp n1 k ok bad] run k0 show ?thesis by simp
  qed
  have A5: "code = 5" if c5
  proof -
    from that obtain p where fp: "first_primary displays p" and n: "2 \<le> length displays"
      and ok: "\<forall>k<length (writes w displays p).
                accepted w (take k (writes w displays p)) (writes w displays p ! k)"
      and bad: "\<not> accepted w (writes w displays p) apply_call"
      unfolding c5_def by blast
    from n have n1: "length displays \<noteq> 1" by simp
    from run_all_staged [OF assms fp n1 ok] run bad show ?thesis by simp
  qed
  have A0: "code = 0" if c0
  proof -
    from that obtain p where fp: "first_primary displays p"
      and alt: "length displays = 1 \<or>
              (\<forall>k<length (writes w displays p).
                 accepted w (take k (writes w displays p)) (writes w displays p ! k)) \<and>
              accepted w (writes w displays p) apply_call"
      unfolding c0_def by blast
    show ?thesis
    proof (cases "length displays = 1")
      case True
      from run_single [OF assms True fp] run show ?thesis by simp
    next
      case False
      with alt have ok: "\<forall>k<length (writes w displays p).
                 accepted w (take k (writes w displays p)) (writes w displays p ! k)"
        and ap: "accepted w (writes w displays p) apply_call"
        by simp_all
      from run_all_staged [OF assms fp False ok] run ap show ?thesis by simp
    qed
  qed
  have B: "c1 \<or> c2 \<or> c3 \<or> c4 \<or> c5 \<or> c0"
  proof (cases "displays = []")
    case True
    then show ?thesis by (simp add: c1_def)
  next
    case ne: False
    show ?thesis
    proof (cases rule: primary_cases [of displays])
      case none
      with ne show ?thesis by (simp add: c2_def)
    next
      case (some p)
      show ?thesis
      proof (cases "length displays = 1")
        case True
        with some have c0 unfolding c0_def by blast
        then show ?thesis by simp
      next
        case False
        with ne have n: "2 \<le> length displays"
          by (cases displays) (simp_all add: Suc_le_eq)
        show ?thesis
        proof (cases rule: writes_dichotomy [of "writes w displays p" w])
          case (fails k)
          show ?thesis
          proof (cases "k = 0")
            case True
            with fails(3) have "\<not> accepted w [] (target_write w (target_of displays p))"
              by (simp add: writes_def)
            with some n have c3 unfolding c3_def by blast
            then show ?thesis by simp
          next
            case False
            then have "0 < k" by simp
            with some n fails have c4 unfolding c4_def by blast
            then show ?thesis by simp
          qed
        next
          case all_ok
          show ?thesis
          proof (cases "accepted w (writes w displays p) apply_call")
            case True
            with some all_ok have c0 unfolding c0_def by blast
            then show ?thesis by simp
          next
            case False
            with some n all_ok have c5 unfolding c5_def by blast
            then show ?thesis by simp
          qed
        qed
      qed
    qed
  qed
  have range: "code \<in> {0, 1, 2, 3, 4, 5}"
    using A0 A1 A2 A3 A4 A5 B by auto
  have iffs: "(code = 1 \<longleftrightarrow> c1) \<and> (code = 2 \<longleftrightarrow> c2) \<and> (code = 3 \<longleftrightarrow> c3) \<and>
      (code = 4 \<longleftrightarrow> c4) \<and> (code = 5 \<longleftrightarrow> c5) \<and> (code = 0 \<longleftrightarrow> c0)"
    using A0 A1 A2 A3 A4 A5 B by auto
  from run main range iffs show ?thesis
    unfolding c0_def c1_def c2_def c3_def c4_def c5_def by blast
qed

theorem C7_witness:
  "wWinMain (windows_sdk three_devices (three_settings 0x7C00A0) (rejecting None)) = Some 5"
proof -
  let ?w = "windows_sdk three_devices (three_settings 0x7C00A0) (rejecting None)"
  let ?ds = "three_monitors 0x7C00A0"
  note ws = writes_three [of three_devices "three_settings 0x7C00A0" "rejecting None" "0x7C00A0"]
  have acc: "accepted ?w history c \<longleftrightarrow> lpszDeviceName c \<noteq> None" for history c
    by (simp add: accepted_def windows_sdk_def rejecting_def)
  have n: "2 \<le> length ?ds"
    by (simp add: three_monitors_def)
  have ok: "\<forall>k<length (writes ?w ?ds 0). accepted ?w (take k (writes ?w ?ds 0)) (writes ?w ?ds 0 ! k)"
    unfolding acc ws by (simp add: All_less_Suc)
  have bad: "\<not> accepted ?w (writes ?w ?ds 0) apply_call"
    unfolding acc by (simp add: apply_call_def)
  from first_primary_three n ok bad
  have c5: "\<exists>p. first_primary ?ds p \<and> 2 \<le> length ?ds \<and>
             (\<forall>k<length (writes ?w ?ds p).
                accepted ?w (take k (writes ?w ?ds p)) (writes ?w ?ds p ! k)) \<and>
             \<not> accepted ?w (writes ?w ?ds p) apply_call"
    by blast
  from C7_exit_status [OF enumerate_three, of "0x7C00A0" "rejecting None"]
  obtain code where main: "wWinMain ?w = Some code"
    and iff5: "code = 5 \<longleftrightarrow>
        (\<exists>p. first_primary ?ds p \<and> 2 \<le> length ?ds \<and>
             (\<forall>k<length (writes ?w ?ds p).
                accepted ?w (take k (writes ?w ?ds p)) (writes ?w ?ds p ! k)) \<and>
             \<not> accepted ?w (writes ?w ?ds p) apply_call)"
    by (elim exE conjE)
  from iff5 c5 have "code = 5" by (rule iffD2)
  with main show ?thesis by simp
qed

text \<open>
  C8. Let the display service enumerate the devices \<open>devs\<close>: index \<open>i\<close> below their number
  gives the \<open>i\<close>-th device and the next index fails. Then \<open>EnumerateDisplays\<close> returns;
  its monitors are, in enumeration order, the devices that are attached to the desktop,
  are not mirroring drivers and whose current settings can be read, each with the
  settings read for it and its primary flag; a device whose settings cannot be read is
  left out with one diagnostic, and the devices after it are still read. The boolean
  result says whether any monitor was found.
\<close>

theorem C8_topology_reader:
  assumes "\<forall>i<length devs. EnumDisplayDevicesW w i = Some (devs ! i)"
    and "EnumDisplayDevicesW w (length devs) = None"
  shows "\<exists>out log. EnumerateDisplays w = Some (out \<noteq> [], out, log) \<and>
     map dd out = filter (\<lambda>dev. candidate w dev \<and> current_settings w dev \<noteq> None) devs \<and>
     (\<forall>d\<in>set out. current_settings w (dd d) = Some (dm d) \<and>
        isPrimary d = (StateFlags (dd d) AND DISPLAY_DEVICE_PRIMARY_DEVICE w \<noteq> 0)) \<and>
     log = map (\<lambda>dev. PrintLastError ''EnumDisplaySettingsEx'')
             (filter (\<lambda>dev. candidate w dev \<and> current_settings w dev = None) devs)"
proof (intro exI conjI)
  show "EnumerateDisplays w =
      Some (read_monitors w devs \<noteq> [], read_monitors w devs, read_diagnostics w devs)"
    by (rule EnumerateDisplays_table [OF assms])
  show "map dd (read_monitors w devs) =
      filter (\<lambda>dev. candidate w dev \<and> current_settings w dev \<noteq> None) devs"
    by (rule dd_read_monitors)
  show "\<forall>d\<in>set (read_monitors w devs). current_settings w (dd d) = Some (dm d) \<and>
        isPrimary d = (StateFlags (dd d) AND DISPLAY_DEVICE_PRIMARY_DEVICE w \<noteq> 0)"
    using read_monitors_members by blast
  show "read_diagnostics w devs = map (\<lambda>dev. PrintLastError ''EnumDisplaySettingsEx'')
             (filter (\<lambda>dev. candidate w dev \<and> current_settings w dev = None) devs)"
    by (rule read_diagnostics_eq)
qed

theorem C8_witness:
  "\<exists>out log. EnumerateDisplays (windows_sdk three_devices (three_settings 0x7C00A0) (always 0))
       = Some (True, out, log) \<and>
     map dd out = [device ''A'' 0x5, device ''B'' 0x1, device ''C'' 0x1] \<and>
     log = [PrintLastError ''EnumDisplaySettingsEx'']"
proof -
  let ?w = "windows_sdk three_devices (three_settings 0x7C00A0) (always 0)"
  have tab: "\<forall>i<length three_devices. EnumDisplayDevicesW ?w i = Some (three_devices ! i)"
    "EnumDisplayDevicesW ?w (length three_devices) = None"
    by (simp_all add: windows_sdk_def)
  have cand: "filter (\<lambda>dev. candidate ?w dev \<and> current_settings ?w dev \<noteq> None) three_devices
      = [device ''A'' 0x5, device ''B'' 0x1, device ''C'' 0x1]"
    by (simp add: candidate_def current_settings_def windows_sdk_def three_devices_def
        three_settings_def device_def)
  have unread: "filter (\<lambda>dev. candidate ?w dev \<and> current_settings ?w dev = None) three_devices
      = [device ''X'' 0x1]"
    by (simp add: candidate_def current_settings_def windows_sdk_def three_devices_def
        three_settings_def device_def)
  from C8_topology_reader [OF tab] obtain out log
    where en: "EnumerateDisplays ?w = Some (out \<noteq> [], out, log)"
      and dds: "map dd out = [device ''A'' 0x5, device ''B'' 0x1, device ''C'' 0x1]"
      and lg: "log = [PrintLastError ''EnumDisplaySettingsEx'']"
    unfolding cand unread by auto
  from dds have "out \<noteq> []" by auto
  with en dds lg show ?thesis by auto
qed

text \<open>
  C9. If more than one monitor is flagged primary, with \<open>p\<close> the lowest flagged index,
  the search finds \<open>p\<close>; the run reports neither "no displays" (1) nor "could not
  identify the current primary" (2); its first call writes the successor of \<open>p\<close>; and
  the whole run is the run on the same monitors with only \<open>p\<close> flagged.
\<close>

theorem C9_first_flagged_wins:
  assumes "EnumerateDisplays w = Some (found, displays, log)"
    and "first_primary displays p"
    and "p < q" and "q < length displays" and "isPrimary (displays ! q)"
  shows "find_current_primary displays 0 = int p \<and>
         (\<exists>code r rest. SwitchPrimaryToNext w = Some (code, r) \<and> code \<noteq> 1 \<and> code \<noteq> 2 \<and>
            calls r = target_write w (target_of displays p) # rest \<and>
            Could_not_identify_current_primary_display \<notin> set (drop (length log) (printed r))) \<and>
         SwitchPrimaryToNext_body w displays s =
           SwitchPrimaryToNext_body w (only_primary p displays) s"
proof -
  let ?ws = "writes w displays p"
  from assms(3,4) have n: "length displays \<noteq> 1" by simp
  have find: "find_current_primary displays 0 = int p"
    by (rule find_first_primary [OF assms(2)])
  have same: "SwitchPrimaryToNext_body w displays s =
           SwitchPrimaryToNext_body w (only_primary p displays) s"
    by (rule body_only_primary [OF assms(2) n])
  obtain others where ws: "?ws = target_write w (target_of displays p) # others"
    by (simp add: writes_def)
  have run: "\<exists>code r rest. SwitchPrimaryToNext w = Some (code, r) \<and> code \<noteq> 1 \<and> code \<noteq> 2 \<and>
            calls r = target_write w (target_of displays p) # rest \<and>
            Could_not_identify_current_primary_display \<notin> set (drop (length log) (printed r))"
  proof (cases rule: writes_dichotomy [of ?ws w])
    case (fails m)
    let ?code = "if m = 0 then 3 else 4 :: int"
    let ?msg = "(if m = 0 then Set_primary_failed else Reposition_failed)
                 (DeviceName (dd (written displays p ! m)))
                 (ChangeDisplaySettingsExW w (take m ?ws) (?ws ! m))"
    let ?r = "\<lparr>calls = take (Suc m) ?ws, printed = log @ [?msg]\<rparr>"
    have a: "SwitchPrimaryToNext w = Some (?code, ?r)"
      by (rule run_write_fails [OF assms(1,2) n fails])
    have b: "?code \<noteq> 1" "?code \<noteq> 2" by simp_all
    have c: "calls ?r = target_write w (target_of displays p) # take m others"
      by (simp add: ws)
    have d: "Could_not_identify_current_primary_display \<notin> set (drop (length log) (printed ?r))"
      by simp
    from a b c d show ?thesis by blast
  next
    case all_ok
    let ?r0 = "\<lparr>calls = ?ws @ [apply_call],
               printed = log @
                 [Primary_display_switched_to (DeviceName (dd (target_of displays p)))]\<rparr>"
    let ?r5 = "\<lparr>calls = ?ws @ [apply_call],
               printed = log @
                 [Final_apply_failed (ChangeDisplaySettingsExW w ?ws apply_call)]\<rparr>"
    have c0: "calls ?r0 = target_write w (target_of displays p) # (others @ [apply_call])"
      and c5: "calls ?r5 = target_write w (target_of displays p) # (others @ [apply_call])"
      by (simp_all add: ws)
    have d0: "Could_not_identify_current_primary_display \<notin> set (drop (length log) (printed ?r0))"
      and d5: "Could_not_identify_current_primary_display \<notin> set (drop (length log) (printed ?r5))"
      by simp_all
    show ?thesis
    proof (cases "accepted w ?ws apply_call")
      case True
      with run_all_staged [OF assms(1,2) n all_ok]
      have "SwitchPrimaryToNext w = Some (0, ?r0)" by simp
      moreover have "(0::int) \<noteq> 1" "(0::int) \<noteq> 2" by simp_all
      ultimately show ?thesis using c0 d0 by blast
    next
      case False
      with run_all_staged [OF assms(1,2) n all_ok]
      have "SwitchPrimaryToNext w = Some (5, ?r5)" by simp
      moreover have "(5::int) \<noteq> 1" "(5::int) \<noteq> 2" by simp_all
      ultimately show ?thesis using c5 d5 by blast
    qed
  qed
  from find run same show ?thesis by blast
qed

theorem C9_witness:
  "find_current_primary (double_monitors 0x7C00A0) 0 = int 1 \<and>
   (\<exists>code r rest.
      SwitchPrimaryToNext (windows_sdk double_devices (three_settings 0x7C00A0) (always 0))
        = Some (code, r) \<and> code \<noteq> 1 \<and> code \<noteq> 2 \<and>
      calls r = target_write (windows_sdk double_devices (three_settings 0x7C00A0) (always 0))
                  (target_of (double_monitors 0x7C00A0) 1) # rest \<and>
      Could_not_identify_current_primary_display \<notin> set (drop (length ([] :: message list)) (printed r))) \<and>
   SwitchPrimaryToNext_body (windows_sdk double_devices (three_settings 0x7C00A0) (always 0))
       (double_monitors 0x7C00A0) \<lparr>calls = [], printed = []\<rparr> =
     SwitchPrimaryToNext_body (windows_sdk double_devices (three_settings 0x7C00A0) (always 0))
       (only_primary 1 (double_monitors 0x7C00A0)) \<lparr>calls = [], printed = []\<rparr>"
proof -
  have fp: "first_primary (double_monitors 0x7C00A0) 1"
    by (simp add: first_primary_def double_monitors_def monitor_def)
  have q: "(1::nat) < 2" "2 < length (double_monitors 0x7C00A0)"
    "isPrimary (double_monitors 0x7C00A0 ! 2)"
    by (simp_all add: double_monitors_def monitor_def)
  show ?thesis
    by (rule C9_first_flagged_wins [OF enumerate_double fp q])
qed

text \<open>
  C10, as the code has it. In every run that selects a target, each call is either the
  final apply (the last call of a run in which every write was accepted) or the write of
  a monitor: it names that monitor and its settings are the monitor's snapshot settings
  with the position replaced and \<open>DM_POSITION\<close> or-ed into \<open>dmFields\<close>, every other
  member as read. The first call's flags are
  \<open>CDS_SET_PRIMARY | CDS_UPDATEREGISTRY | CDS_NORESET\<close>, the flags of every later write
  are \<open>CDS_UPDATEREGISTRY | CDS_NORESET\<close>; where \<open>CDS_SET_PRIMARY\<close> shares no bit with those
  two, no call but the first carries it.
\<close>

theorem C10_frame:
  assumes "EnumerateDisplays w = Some (found, displays, log)"
    and "first_primary displays p" and "length displays \<noteq> 1"
    and "SwitchPrimaryToNext w = Some (code, r)"
    and "k < length (calls r)"
  shows "(calls r ! k = apply_call \<and> k = length displays \<or>
          k < length displays \<and>
          lpszDeviceName (calls r ! k) = Some (DeviceName (dd (written displays p ! k))) \<and>
          (\<exists>pos. lpDevMode (calls r ! k) =
             Some ((dm (written displays p ! k))
                     \<lparr>dmFields := dmFields (dm (written displays p ! k)) OR DM_POSITION w,
                      dmPosition := pos\<rparr>)) \<and>
          dwflags (calls r ! k) =
            (if k = 0 then CDS_SET_PRIMARY w OR CDS_UPDATEREGISTRY w OR CDS_NORESET w
             else CDS_UPDATEREGISTRY w OR CDS_NORESET w)) \<and>
         (k = 0 \<longrightarrow> dwflags (calls r ! k) AND CDS_SET_PRIMARY w = CDS_SET_PRIMARY w) \<and>
         (k \<noteq> 0 \<longrightarrow> (CDS_UPDATEREGISTRY w OR CDS_NORESET w) AND CDS_SET_PRIMARY w = 0 \<longrightarrow>
            dwflags (calls r ! k) AND CDS_SET_PRIMARY w = 0)"
proof -
  let ?ws = "writes w displays p"
  from assms(2) have ne: "displays \<noteq> []" by (rule first_primary_nonempty)
  have lw: "length ?ws = length displays"
    using length_written [OF ne, of p] by (simp add: length_writes)
  have lwr: "length (written displays p) = length displays"
    by (rule length_written [OF ne])
  have wr: "k < length displays \<Longrightarrow>
      lpszDeviceName (?ws ! k) = Some (DeviceName (dd (written displays p ! k))) \<and>
      (\<exists>pos. lpDevMode (?ws ! k) =
         Some ((dm (written displays p ! k))
                 \<lparr>dmFields := dmFields (dm (written displays p ! k)) OR DM_POSITION w,
                  dmPosition := pos\<rparr>)) \<and>
      dwflags (?ws ! k) =
        (if k = 0 then CDS_SET_PRIMARY w OR CDS_UPDATEREGISTRY w OR CDS_NORESET w
         else CDS_UPDATEREGISTRY w OR CDS_NORESET w)"
    using writes_frame [of k displays p w] by (simp add: lwr)
  have cases: "calls r ! k = apply_call \<and> k = length displays \<or>
      k < length displays \<and> calls r ! k = ?ws ! k"
  proof -
    from calls_shape [OF assms(1,2,3,4)]
    consider m where "m < length ?ws" "calls r = take (Suc m) ?ws"
      | "calls r = ?ws @ [apply_call]"
      by blast
    then show ?thesis
    proof cases
      case 1
      with assms(5) lw show ?thesis by simp
    next
      case 2
      with assms(5) lw have "k < length displays \<or> k = length displays" by auto
      then show ?thesis
      proof
        assume "k < length displays"
        with 2 lw show ?thesis by (simp add: nth_append)
      next
        assume "k = length displays"
        with 2 lw show ?thesis by (simp add: nth_append)
      qed
    qed
  qed
  have first: "dwflags (calls r ! k) AND CDS_SET_PRIMARY w = CDS_SET_PRIMARY w" if "k = 0"
  proof -
    from cases that ne have "calls r ! k = ?ws ! k" by auto
    with that show ?thesis
      by (simp add: writes_def target_write_fields or_and_self)
  qed
  have later: "dwflags (calls r ! k) AND CDS_SET_PRIMARY w = 0"
    if "k \<noteq> 0" "(CDS_UPDATEREGISTRY w OR CDS_NORESET w) AND CDS_SET_PRIMARY w = 0"
    using cases
  proof
    assume "calls r ! k = apply_call \<and> k = length displays"
    then have e: "calls r ! k = apply_call" by (rule conjunct1)
    show ?thesis unfolding e by (simp add: apply_call_def)
  next
    assume a: "k < length displays \<and> calls r ! k = ?ws ! k"
    with wr have "dwflags (?ws ! k) =
        (if k = 0 then CDS_SET_PRIMARY w OR CDS_UPDATEREGISTRY w OR CDS_NORESET w
         else CDS_UPDATEREGISTRY w OR CDS_NORESET w)"
      by blast
    with a that show ?thesis by simp
  qed
  from cases wr first later show ?thesis by auto
qed

theorem C10_witness:
  "\<exists>r. SwitchPrimaryToNext (windows_sdk three_devices (three_settings 0) (always 0))
         = Some (0, r) \<and> 1 < length (calls r) \<and>
     ((calls r ! 1 = apply_call \<and> 1 = length (three_monitors 0) \<or>
       1 < length (three_monitors 0) \<and>
       lpszDeviceName (calls r ! 1) = Some (DeviceName (dd (written (three_monitors 0) 0 ! 1))) \<and>
       (\<exists>pos. lpDevMode (calls r ! 1) =
          Some ((dm (written (three_monitors 0) 0 ! 1))
                  \<lparr>dmFields := dmFields (dm (written (three_monitors 0) 0 ! 1)) OR
                     DM_POSITION (windows_sdk three_devices (three_settings 0) (always 0)),
                   dmPosition := pos\<rparr>)) \<and>
       dwflags (calls r ! 1) =
         (if (1::nat) = 0
          then CDS_SET_PRIMARY (windows_sdk three_devices (three_settings 0) (always 0)) OR
               CDS_UPDATEREGISTRY (windows_sdk three_devices (three_settings 0) (always 0)) OR
               CDS_NORESET (windows_sdk three_devices (three_settings 0) (always 0))
          else CDS_UPDATEREGISTRY (windows_sdk three_devices (three_settings 0) (always 0)) OR
               CDS_NORESET (windows_sdk three_devices (three_settings 0) (always 0)))) \<and>
      ((1::nat) = 0 \<longrightarrow>
         dwflags (calls r ! 1) AND
           CDS_SET_PRIMARY (windows_sdk three_devices (three_settings 0) (always 0)) =
         CDS_SET_PRIMARY (windows_sdk three_devices (three_settings 0) (always 0))) \<and>
      ((1::nat) \<noteq> 0 \<longrightarrow>
         (CDS_UPDATEREGISTRY (windows_sdk three_devices (three_settings 0) (always 0)) OR
          CDS_NORESET (windows_sdk three_devices (three_settings 0) (always 0))) AND
           CDS_SET_PRIMARY (windows_sdk three_devices (three_settings 0) (always 0)) = 0 \<longrightarrow>
         dwflags (calls r ! 1) AND
           CDS_SET_PRIMARY (windows_sdk three_devices (three_settings 0) (always 0)) = 0))"
proof -
  let ?R = "\<lparr>calls =
                 [\<lparr>lpszDeviceName = Some ''B'', lpDevMode = Some (settings_at (0 OR 0x20) 0 0),
                   dwflags = 0x10000011\<rparr>,
                  \<lparr>lpszDeviceName = Some ''A'',
                   lpDevMode = Some (settings_at (0 OR 0x20) (- 1920) 0),
                   dwflags = 0x10000001\<rparr>,
                  \<lparr>lpszDeviceName = Some ''C'',
                   lpDevMode = Some (settings_at (0 OR 0x20) (- 3840) 0),
                   dwflags = 0x10000001\<rparr>,
                  apply_call],
               printed = [PrintLastError ''EnumDisplaySettingsEx'',
                          Primary_display_switched_to ''B'']\<rparr>"
  have n: "length (three_monitors 0) \<noteq> 1"
    by (simp add: three_monitors_def)
  have run: "SwitchPrimaryToNext (windows_sdk three_devices (three_settings 0) (always 0))
      = Some (0, ?R)"
    by (rule run_three_ok)
  have k: "1 < length (calls ?R)"
    by simp
  note c = C10_frame [OF enumerate_three first_primary_three n run k]
  show ?thesis
    by (rule exI [of _ ?R], rule conjI [OF run conjI [OF k c]])
qed

text \<open>
  The claim as stated fails where the snapshot's \<open>dmFields\<close> lacks \<open>DM_POSITION\<close>: on the
  three-monitor desktop read with \<open>dmFields = 0\<close> the settings staged for the target B
  are not B's snapshot settings with only the position changed, since \<open>dmFields\<close> is
  \<open>0x20\<close> in the call and \<open>0\<close> in the snapshot.
\<close>

theorem C10_counterexample:
  "EnumerateDisplays (windows_sdk three_devices (three_settings 0) (always 0)) =
     Some (True,
           [monitor ''A'' 0x5 0 0 0 True, monitor ''B'' 0x1 0 1920 0 False,
            monitor ''C'' 0x1 0 (- 1920) 0 False],
           [PrintLastError ''EnumDisplaySettingsEx'']) \<and>
   SwitchPrimaryToNext (windows_sdk three_devices (three_settings 0) (always 0)) =
     Some (0, \<lparr>calls =
                 [\<lparr>lpszDeviceName = Some ''B'', lpDevMode = Some (settings_at 0x20 0 0),
                   dwflags = 0x10000011\<rparr>,
                  \<lparr>lpszDeviceName = Some ''A'', lpDevMode = Some (settings_at 0x20 (- 1920) 0),
                   dwflags = 0x10000001\<rparr>,
                  \<lparr>lpszDeviceName = Some ''C'', lpDevMode = Some (settings_at 0x20 (- 3840) 0),
                   dwflags = 0x10000001\<rparr>,
                  apply_call],
               printed = [PrintLastError ''EnumDisplaySettingsEx'',
                          Primary_display_switched_to ''B'']\<rparr>) \<and>
   settings_at 0x20 0 0 \<noteq>
     (dm (monitor ''B'' 0x1 0 1920 0 False))\<lparr>dmPosition := \<lparr>POINTL_x = 0, POINTL_y = 0\<rparr>\<rparr>"
proof -
  have "EnumerateDisplays (windows_sdk three_devices (three_settings 0) (always 0)) =
     Some (True,
           [monitor ''A'' 0x5 0 0 0 True, monitor ''B'' 0x1 0 1920 0 False,
            monitor ''C'' 0x1 0 (- 1920) 0 False],
           [PrintLastError ''EnumDisplaySettingsEx''])"
    using enumerate_three [of 0 "always 0"] by (simp add: three_monitors_def)
  moreover have "settings_at 0x20 0 0 \<noteq>
     (dm (monitor ''B'' 0x1 0 1920 0 False))\<lparr>dmPosition := \<lparr>POINTL_x = 0, POINTL_y = 0\<rparr>\<rparr>"
    by (simp add: monitor_def settings_at_def)
  ultimately show ?thesis
    using run_three_ok [of 0] by simp
qed

end
